theory Spec2Isabelle
  imports Complex_Main "HOL-Library.Word"
begin

section \<open>Biometric voting backend: credential vault, matching, throttle, session and vote commitment\<close>

text \<open>
  A shallow embedding of the Python backend (\<^verbatim>\<open>app/services/crypto.py\<close>,
  \<^verbatim>\<open>app/services/biometric/face.py\<close>, \<^verbatim>\<open>app/middleware/auth.py\<close>,
  \<^verbatim>\<open>app/routers/voting.py\<close>). Exceptions are values of a sum type, the database
  and the in-memory replay store are passed explicitly, the clock is an argument, and
  floating-point numbers are idealised as reals.
\<close>

subsection \<open>Bytes, exceptions and the external libraries\<close>

type_synonym byte = "8 word"
type_synonym bytes = "byte list"

datatype exn = ValueError | InvalidTag | Base64Error | OtherError

text \<open>
  The third-party primitives used by \<^verbatim>\<open>crypto.py\<close>: \<^verbatim>\<open>AESGCM.encrypt\<close> and
  \<^verbatim>\<open>AESGCM.decrypt\<close> of the cryptography package (key, nonce, data; no associated
  data) and \<^verbatim>\<open>base64.b64encode\<close> / \<^verbatim>\<open>base64.b64decode\<close>. They are not part of
  the repository and are taken as parameters.
\<close>

record crypto_lib =
  aesgcm_encrypt :: "bytes \<Rightarrow> bytes \<Rightarrow> bytes \<Rightarrow> exn + bytes"
  aesgcm_decrypt :: "bytes \<Rightarrow> bytes \<Rightarrow> bytes \<Rightarrow> exn + bytes"
  b64encode :: "bytes \<Rightarrow> string"
  b64decode :: "string \<Rightarrow> exn + bytes"

text \<open>\<^verbatim>\<open>str.encode('utf-8')\<close> on a string of single-byte characters.\<close>

definition encode_utf8 :: "string \<Rightarrow> bytes" where
  "encode_utf8 s = map of_char s"

subsection \<open>crypto.py: encrypt\_biometric and decrypt\_biometric\<close>

text \<open>
  \<^verbatim>\<open>key = settings.BIOMETRIC_ENCRYPTION_KEY.encode('utf-8')[:32]\<close>;
  \<^verbatim>\<open>nonce = secrets.token_bytes(12)\<close> is an argument of the model;
  \<^verbatim>\<open>encrypted_data = nonce + ciphertext\<close>, base64-encoded. Every exception is
  logged and re-raised.
\<close>

definition encrypt_biometric :: "crypto_lib \<Rightarrow> string \<Rightarrow> bytes \<Rightarrow> bytes \<Rightarrow> exn + string" where
  "encrypt_biometric lib encryption_key nonce template_bytes =
     (let key = take 32 (encode_utf8 encryption_key) in
      case aesgcm_encrypt lib key nonce template_bytes of
        Inl e \<Rightarrow> Inl e
      | Inr ciphertext \<Rightarrow> Inr (b64encode lib (nonce @ ciphertext)))"

definition decrypt_biometric :: "crypto_lib \<Rightarrow> string \<Rightarrow> string \<Rightarrow> exn + bytes" where
  "decrypt_biometric lib encryption_key encrypted_b64 =
     (let key = take 32 (encode_utf8 encryption_key) in
      case b64decode lib encrypted_b64 of
        Inl e \<Rightarrow> Inl e
      | Inr encrypted_data \<Rightarrow>
          (let nonce = take 12 encrypted_data;
               ciphertext = drop 12 encrypted_data
           in aesgcm_decrypt lib key nonce ciphertext))"

subsection \<open>crypto.py: quantize\_embedding and dequantize\_embedding\<close>





text \<open>
  \<^verbatim>\<open>np.frombuffer(embedding_bytes, dtype='int8').reshape(shape)\<close> raises ValueError
  when the number of bytes is not the size of the shape; then each signed byte is divided
  by 127.0.
\<close>

definition dequantize_embedding :: "bytes \<Rightarrow> nat \<Rightarrow> exn + real list" where
  "dequantize_embedding embedding_bytes shape =
     (if length embedding_bytes \<noteq> shape then Inl ValueError
      else Inr (map (\<lambda>b. real_of_int (sint b) / 127) embedding_bytes))"

subsection \<open>face.py: cosine similarity and compare\_embeddings\<close>

definition dot :: "real list \<Rightarrow> real list \<Rightarrow> real" where
  "dot a b = sum_list (map2 (*) a b)"

definition norm2 :: "real list \<Rightarrow> real" where
  "norm2 a = sqrt (sum_list (map (\<lambda>x. x * x) a))"

definition cosine_similarity :: "real list \<Rightarrow> real list \<Rightarrow> real" where
  "cosine_similarity a b =
     (if length a \<noteq> length b then 0
      else let dot_product = dot a b; norm_a = norm2 a; norm_b = norm2 b in
        if norm_a = 0 \<or> norm_b = 0 then 0
        else max 0 (min 1 (dot_product / (norm_a * norm_b))))"

text \<open>
  The body of the \<^verbatim>\<open>try\<close> block of \<^verbatim>\<open>compare_embeddings\<close>. Step 5 hashes the live
  embedding when it matched and discards the hash; it does not affect the result and is
  left out.
\<close>

definition compare_embeddings_body ::
  "crypto_lib \<Rightarrow> string \<Rightarrow> real \<Rightarrow> real list \<Rightarrow> string \<Rightarrow> exn + bool \<times> real" where
  "compare_embeddings_body lib encryption_key threshold live_embedding stored_encrypted =
     (case decrypt_biometric lib encryption_key stored_encrypted of
        Inl e \<Rightarrow> Inl e
      | Inr decrypted_bytes \<Rightarrow>
          (case dequantize_embedding decrypted_bytes (length live_embedding) of
             Inl e \<Rightarrow> Inl e
           | Inr stored_embedding \<Rightarrow>
               (let similarity = cosine_similarity live_embedding stored_embedding;
                    matched = (similarity \<ge> threshold)
                in Inr (matched, similarity))))"

text \<open>\<^verbatim>\<open>except Exception: return False, 0.0\<close>.\<close>

definition compare_embeddings ::
  "crypto_lib \<Rightarrow> string \<Rightarrow> real \<Rightarrow> real list \<Rightarrow> string \<Rightarrow> exn + bool \<times> real" where
  "compare_embeddings lib encryption_key threshold live_embedding stored_encrypted =
     (case compare_embeddings_body lib encryption_key threshold live_embedding stored_encrypted of
        Inl e \<Rightarrow> Inr (False, 0)
      | Inr r \<Rightarrow> Inr r)"

subsection \<open>config.py: the settings used by the core\<close>

record settings =
  JWT_SECRET :: string
  VOTING_SESSION_SECRET :: string
  BIOMETRIC_ENCRYPTION_KEY :: string
  FACE_THRESHOLD :: real
  FINGERPRINT_THRESHOLD :: real
  MAX_AUTH_ATTEMPTS :: int
  LOCKOUT_DURATION_MINUTES :: int

subsection \<open>models: the tables read and written by the core\<close>

text \<open>
  Timestamps are seconds since the epoch. The \<^verbatim>\<open>voters\<close> table is keyed by the unique
  external \<^verbatim>\<open>voter_id\<close>; \<open>id_v\<close> is the primary key \<^verbatim>\<open>voters.id\<close>.
\<close>

record voter =
  id_v :: string
  full_name :: string
  constituency_id_v :: string
  has_voted :: bool
  voted_at :: "int option"
  vote_tx_hash :: "string option"
  face_embedding_hash :: string
  encrypted_face_embedding :: string
  fingerprint_template_hash :: string
  encrypted_fingerprint_template :: string
  biometric_salt :: string
  failed_auth_count :: int
  locked_out :: bool
  lockout_at :: "int option"
  blockchain_voter_id :: string

datatype auth_method = FACE | FINGERPRINT

datatype auth_outcome = SUCCESS | FAILURE | LOCKOUT

datatype failure_reason =
    ReasonVoterNotFound
  | ReasonAlreadyVoted
  | ReasonAccountLocked int
  | ReasonMaxAttempts
  | ReasonBiometric string
  | ReasonNotMatched real

record auth_attempt =
  voter_ref :: "string option"
  method_a :: auth_method
  outcome_a :: auth_outcome
  failure_reason_a :: "failure_reason option"
  similarity_score_a :: "real option"
  ip_address_a :: string
  attempted_at :: int

record vote_submission =
  voter_id_s :: string
  election_id_s :: string
  session_id_s :: string
  tx_hash_s :: string
  block_number_s :: int
  gas_used_s :: int
  submitted_at :: int

record blockchain_txn =
  election_id_t :: string
  tx_hash_t :: string
  block_number_t :: int
  gas_used_t :: int

record candidate =
  election_id_c :: string
  constituency_id_c :: string
  on_chain_id_c :: int
  is_active :: bool

record constituency =
  name_k :: string
  on_chain_id_k :: int

record election =
  id_e :: string
  status_e :: string
  created_at_e :: int

record db =
  voters :: "string \<rightharpoonup> voter"
  constituencies :: "string \<rightharpoonup> constituency"
  candidates :: "string \<rightharpoonup> candidate"
  elections :: "election list"
  auth_attempts :: "auth_attempt list"
  vote_submissions :: "vote_submission list"
  blockchain_txns :: "blockchain_txn list"

text \<open>\<^verbatim>\<open>UPDATE voters SET ... WHERE voter_id = :voter_id\<close>.\<close>

definition update_voter :: "db \<Rightarrow> string \<Rightarrow> (voter \<Rightarrow> voter) \<Rightarrow> db" where
  "update_voter d vid f =
     (case voters d vid of
        None \<Rightarrow> d
      | Some v \<Rightarrow> d\<lparr>voters := (voters d)(vid \<mapsto> f v)\<rparr>)"

text \<open>\<^verbatim>\<open>SELECT ... FROM voters v JOIN constituencies c ON v.constituency_id = c.id WHERE v.voter_id = :voter_id\<close>.\<close>

definition select_voter_joined :: "db \<Rightarrow> string \<Rightarrow> (voter \<times> constituency) option" where
  "select_voter_joined d vid =
     (case voters d vid of
        None \<Rightarrow> None
      | Some v \<Rightarrow>
          (case constituencies d (constituency_id_v v) of
             None \<Rightarrow> None
           | Some c \<Rightarrow> Some (v, c)))"

text \<open>\<^verbatim>\<open>SELECT e.id FROM elections e WHERE e.status = 'active' ORDER BY e.created_at DESC LIMIT 1\<close>.\<close>

definition select_active_election :: "db \<Rightarrow> string option" where
  "select_active_election d =
     (case filter (\<lambda>e. status_e e = ''active'') (elections d) of
        [] \<Rightarrow> None
      | e # es \<Rightarrow>
          Some (id_e (fold (\<lambda>x best. if created_at_e best < created_at_e x then x else best) es e)))"

text \<open>\<^verbatim>\<open>SELECT ... FROM candidates WHERE id = :candidate_id AND election_id = :election_id\<close>.\<close>

definition select_candidate :: "db \<Rightarrow> string \<Rightarrow> string \<Rightarrow> candidate option" where
  "select_candidate d candidate_id election_id =
     (case candidates d candidate_id of
        None \<Rightarrow> None
      | Some c \<Rightarrow> if election_id_c c = election_id then Some c else None)"

subsection \<open>HTTP errors raised by the voting router and the session dependency\<close>

datatype http_error =
    VoterNotFound
  | AlreadyVoted
  | AccountLocked int
  | MaxAttemptsExceeded
  | BiometricInputError string
  | BiometricMismatch int
  | NoActiveElection
  | AuthenticationFailed
  | FingerprintUnavailable
  | InvalidVotingSession
  | SessionVoterNotFound
  | SessionAlreadyVoted
  | SessionLockedOut
  | TokenAlreadyUsed
  | CastVoterNotFound
  | CastAlreadyVoted
  | CastAccountLocked
  | CandidateNotFound
  | CandidateNotActive
  | CandidateWrongConstituency
  | ConstituencyNotFound
  | BlockchainUnavailable string
  | CastVoteFailed

fun status_code :: "http_error \<Rightarrow> nat" where
  "status_code VoterNotFound = 404"
| "status_code AlreadyVoted = 409"
| "status_code (AccountLocked _) = 403"
| "status_code MaxAttemptsExceeded = 403"
| "status_code (BiometricInputError _) = 400"
| "status_code (BiometricMismatch _) = 401"
| "status_code NoActiveElection = 400"
| "status_code AuthenticationFailed = 500"
| "status_code FingerprintUnavailable = 503"
| "status_code InvalidVotingSession = 401"
| "status_code SessionVoterNotFound = 404"
| "status_code SessionAlreadyVoted = 409"
| "status_code SessionLockedOut = 403"
| "status_code TokenAlreadyUsed = 403"
| "status_code CastVoterNotFound = 404"
| "status_code CastAlreadyVoted = 409"
| "status_code CastAccountLocked = 403"
| "status_code CandidateNotFound = 404"
| "status_code CandidateNotActive = 400"
| "status_code CandidateWrongConstituency = 400"
| "status_code ConstituencyNotFound = 404"
| "status_code (BlockchainUnavailable _) = 503"
| "status_code CastVoteFailed = 500"

subsection \<open>middleware/auth.py: voting session tokens\<close>

text \<open>
  A JWT is modelled by the secret it was signed with and its claims. \<^verbatim>\<open>jwt.decode\<close> of
  python-jose (not part of the repository) verifies the signature against the given key
  and raises ExpiredSignatureError when \<^verbatim>\<open>exp < now\<close>; both are JWTErrors.
\<close>

record token =
  signed_with :: string
  claim_type :: "string option"
  claim_voter_id :: "string option"
  claim_election_id :: "string option"
  claim_constituency_id :: "string option"
  claim_session_id :: "string option"
  claim_exp :: "int option"
  claim_iat :: "int option"

datatype jwt_error = SignatureVerificationFailed | ExpiredSignatureError

definition jwt_decode :: "token \<Rightarrow> string \<Rightarrow> int \<Rightarrow> jwt_error + token" where
  "jwt_decode tok key now =
     (if signed_with tok \<noteq> key then Inl SignatureVerificationFailed
      else case claim_exp tok of
             None \<Rightarrow> Inr tok
           | Some expiry \<Rightarrow> if expiry < now then Inl ExpiredSignatureError else Inr tok)"

definition create_voting_session_token ::
  "settings \<Rightarrow> int \<Rightarrow> string \<Rightarrow> string \<Rightarrow> string \<Rightarrow> string \<Rightarrow> token" where
  "create_voting_session_token st now voter_id election_id constituency_id session_id =
     \<lparr>signed_with = VOTING_SESSION_SECRET st,
      claim_type = Some ''voting_session'',
      claim_voter_id = Some voter_id,
      claim_election_id = Some election_id,
      claim_constituency_id = Some constituency_id,
      claim_session_id = Some session_id,
      claim_exp = Some (now + 5 * 60),
      claim_iat = Some now\<rparr>"

record session_data =
  sd_voter_id :: string
  sd_election_id :: string
  sd_constituency_id :: string
  sd_session_id :: string

text \<open>Python truthiness of \<^verbatim>\<open>payload.get(k)\<close>: None and the empty string are false.\<close>

definition truthy :: "string option \<Rightarrow> bool" where
  "truthy x = (case x of None \<Rightarrow> False | Some s \<Rightarrow> s \<noteq> [])"

definition get_current_session :: "settings \<Rightarrow> db \<Rightarrow> int \<Rightarrow> token \<Rightarrow> http_error + session_data" where
  "get_current_session st d now received_token =
     (case jwt_decode received_token (VOTING_SESSION_SECRET st) now of
        Inl e \<Rightarrow> Inl InvalidVotingSession
      | Inr payload \<Rightarrow>
          if claim_type payload \<noteq> Some ''voting_session'' then Inl InvalidVotingSession
          else if \<not> (truthy (claim_voter_id payload) \<and> truthy (claim_election_id payload)
                    \<and> truthy (claim_constituency_id payload) \<and> truthy (claim_session_id payload))
          then Inl InvalidVotingSession
          else
            (let sd = \<lparr>sd_voter_id = the (claim_voter_id payload),
                       sd_election_id = the (claim_election_id payload),
                       sd_constituency_id = the (claim_constituency_id payload),
                       sd_session_id = the (claim_session_id payload)\<rparr>
             in case voters d (sd_voter_id sd) of
                  None \<Rightarrow> Inl SessionVoterNotFound
                | Some v \<Rightarrow>
                    if has_voted v then Inl SessionAlreadyVoted
                    else if locked_out v then Inl SessionLockedOut
                    else Inr sd))"

subsection \<open>routers/voting.py: authentication with the attempt throttle\<close>

text \<open>
  \<^verbatim>\<open>log_auth_attempt\<close> inserts one row; when the insert raises, the error is logged, the
  transaction is rolled back and nothing is recorded (\<open>insert_ok = False\<close>).
\<close>

definition log_auth_attempt ::
  "db \<Rightarrow> bool \<Rightarrow> int \<Rightarrow> string \<Rightarrow> auth_method \<Rightarrow> auth_outcome \<Rightarrow> failure_reason option
     \<Rightarrow> real option \<Rightarrow> string \<Rightarrow> db" where
  "log_auth_attempt d insert_ok now voter_id m oc reason score ip =
     (if insert_ok then
        d\<lparr>auth_attempts := auth_attempts d @
           [\<lparr>voter_ref = map_option id_v (voters d voter_id),
             method_a = m,
             outcome_a = oc,
             failure_reason_a = reason,
             similarity_score_a = score,
             ip_address_a = ip,
             attempted_at = now\<rparr>]\<rparr>
      else d)"

text \<open>
  The outcome of decoding the sample and extracting its feature vector (image processing
  is outside the model): a vector, the \<^verbatim>\<open>BiometricAuthError\<close> the router catches, or
  any other exception.
\<close>

datatype sample_result = Embedding "real list" | RaisedBiometricAuthError string | RaisedOther

record auth_response =
  auth_token :: token
  resp_constituency_id :: string
  resp_name :: string
  resp_constituency :: string
  resp_session_id :: string

definition stored_template :: "auth_method \<Rightarrow> voter \<Rightarrow> string" where
  "stored_template m v =
     (case m of FACE \<Rightarrow> encrypted_face_embedding v
              | FINGERPRINT \<Rightarrow> encrypted_fingerprint_template v)"

definition method_threshold :: "settings \<Rightarrow> auth_method \<Rightarrow> real" where
  "method_threshold st m =
     (case m of FACE \<Rightarrow> FACE_THRESHOLD st | FINGERPRINT \<Rightarrow> FINGERPRINT_THRESHOLD st)"

text \<open>
  \<^verbatim>\<open>authenticate_with_face\<close> and \<^verbatim>\<open>authenticate_with_fingerprint\<close> have the same body
  up to the modality (service, threshold, stored template), which is the argument \<open>m\<close>.
  The row \<open>voter\<close> is read once at the start; every later test reads that row, not the
  table, as the source does. The result is the response or the HTTP error, and the
  database after the request.
\<close>

definition authenticate ::
  "crypto_lib \<Rightarrow> settings \<Rightarrow> auth_method \<Rightarrow> db \<Rightarrow> int \<Rightarrow> string \<Rightarrow> sample_result \<Rightarrow> string
     \<Rightarrow> string \<Rightarrow> bool \<Rightarrow> (http_error + auth_response) \<times> db" where
  "authenticate lib st m d now voter_id sample ip session_id log_ok =
     (case select_voter_joined d voter_id of
        None \<Rightarrow>
          (Inl VoterNotFound,
           log_auth_attempt d log_ok now voter_id m FAILURE (Some ReasonVoterNotFound) None ip)
      | Some (voter, constit) \<Rightarrow>
          if has_voted voter then
            (Inl AlreadyVoted,
             log_auth_attempt d log_ok now voter_id m FAILURE (Some ReasonAlreadyVoted) None ip)
          else
            (let lockout_duration = LOCKOUT_DURATION_MINUTES st * 60 in
             if locked_out voter \<and>
                (case lockout_at voter of
                   None \<Rightarrow> False
                 | Some lockout_time \<Rightarrow> now < lockout_time + lockout_duration)
             then
               (let remaining = ((the (lockout_at voter) + lockout_duration - now) mod 86400) div 60
                in (Inl (AccountLocked remaining),
                    log_auth_attempt d log_ok now voter_id m LOCKOUT
                      (Some (ReasonAccountLocked remaining)) None ip))
             else
               (let d1 = (if locked_out voter
                          then update_voter d voter_id
                                 (\<lambda>v. v\<lparr>locked_out := False, failed_auth_count := 0\<rparr>)
                          else d)
                in
                if failed_auth_count voter \<ge> MAX_AUTH_ATTEMPTS st then
                  (Inl MaxAttemptsExceeded,
                   log_auth_attempt
                     (update_voter d1 voter_id (\<lambda>v. v\<lparr>locked_out := True, lockout_at := Some now\<rparr>))
                     log_ok now voter_id m LOCKOUT (Some ReasonMaxAttempts) None ip)
                else
                  (case sample of
                     RaisedBiometricAuthError msg \<Rightarrow>
                       (Inl (BiometricInputError msg),
                        log_auth_attempt d1 log_ok now voter_id m FAILURE
                          (Some (ReasonBiometric msg)) None ip)
                   | RaisedOther \<Rightarrow> (Inl AuthenticationFailed, d1)
                   | Embedding live_embedding \<Rightarrow>
                       (case compare_embeddings lib (BIOMETRIC_ENCRYPTION_KEY st)
                               (method_threshold st m) live_embedding (stored_template m voter) of
                          Inl e \<Rightarrow> (Inl AuthenticationFailed, d1)
                        | Inr (matched, similarity_score) \<Rightarrow>
                            if \<not> matched then
                              (let new_count = failed_auth_count voter + 1;
                                   d2 = update_voter d1 voter_id
                                          (\<lambda>v. v\<lparr>failed_auth_count := new_count\<rparr>);
                                   remaining_attempts = MAX_AUTH_ATTEMPTS st - new_count
                               in (Inl (BiometricMismatch remaining_attempts),
                                   log_auth_attempt d2 log_ok now voter_id m FAILURE
                                     (Some (ReasonNotMatched similarity_score))
                                     (Some similarity_score) ip))
                            else
                              (let d2 = update_voter d1 voter_id (\<lambda>v. v\<lparr>failed_auth_count := 0\<rparr>)
                               in case select_active_election d2 of
                                    None \<Rightarrow> (Inl NoActiveElection, d2)
                                  | Some election_id \<Rightarrow>
                                      (Inr \<lparr>auth_token = create_voting_session_token st now voter_id
                                                           election_id (constituency_id_v voter) session_id,
                                            resp_constituency_id = constituency_id_v voter,
                                            resp_name = full_name voter,
                                            resp_constituency = name_k constit,
                                            resp_session_id = session_id\<rparr>,
                                       log_auth_attempt d2 log_ok now voter_id m SUCCESS None
                                         (Some similarity_score) ip)))))))"

definition authenticate_with_face ::
  "crypto_lib \<Rightarrow> settings \<Rightarrow> db \<Rightarrow> int \<Rightarrow> string \<Rightarrow> sample_result \<Rightarrow> string
     \<Rightarrow> string \<Rightarrow> bool \<Rightarrow> (http_error + auth_response) \<times> db" where
  "authenticate_with_face lib st = authenticate lib st FACE"

text \<open>The fingerprint route first answers 503 when the fingerprint service is not available.\<close>

definition authenticate_with_fingerprint ::
  "bool \<Rightarrow> crypto_lib \<Rightarrow> settings \<Rightarrow> db \<Rightarrow> int \<Rightarrow> string \<Rightarrow> sample_result \<Rightarrow> string
     \<Rightarrow> string \<Rightarrow> bool \<Rightarrow> (http_error + auth_response) \<times> db" where
  "authenticate_with_fingerprint fingerprint_available lib st d now voter_id sample ip session_id log_ok =
     (if \<not> fingerprint_available then (Inl FingerprintUnavailable, d)
      else authenticate lib st FINGERPRINT d now voter_id sample ip session_id log_ok)"

subsection \<open>routers/voting.py: cast\_vote and the replay store\<close>

text \<open>\<^verbatim>\<open>used_tokens: Dict[str, datetime]\<close>, session id to expiry time.\<close>

type_synonym token_store = "string \<rightharpoonup> int"

definition clean_expired_tokens :: "token_store \<Rightarrow> int \<Rightarrow> token_store" where
  "clean_expired_tokens used now =
     (\<lambda>tok. case used tok of
               None \<Rightarrow> None
             | Some exp_time \<Rightarrow> if exp_time < now then None else Some exp_time)"

text \<open>
  The result of \<^verbatim>\<open>blockchain_service.submit_vote_on_chain\<close>: a \<^verbatim>\<open>BlockchainError\<close>
  with its message, or \<^verbatim>\<open>(tx_hash, block_number, gas_used)\<close>.
\<close>

type_synonym ledger_result = "string + string \<times> int \<times> int"

record vote_receipt =
  tx_hash_r :: string
  block_number_r :: int
  timestamp_r :: int

text \<open>
  The transaction of \<^verbatim>\<open>cast_vote\<close>: insert the vote submission, mark the voter, add
  the blockchain transaction row, commit. It fails as a whole (\<open>None\<close>, the handler rolls
  back) when a declared constraint is violated: the unique pair (voter, election) and the
  unique transaction hash of \<^verbatim>\<open>vote_submissions\<close>, its foreign key to \<^verbatim>\<open>elections\<close>,
  the unique transaction hash of \<^verbatim>\<open>blockchain_txns\<close>; or for any other storage error
  (\<open>storage_ok = False\<close>).
\<close>

definition commit_vote ::
  "db \<Rightarrow> bool \<Rightarrow> int \<Rightarrow> voter \<Rightarrow> session_data \<Rightarrow> string \<Rightarrow> int \<Rightarrow> int \<Rightarrow> db option" where
  "commit_vote d storage_ok now voter sd tx_hash block_number gas_used =
     (if \<not> storage_ok then None
      else if filter (\<lambda>s. voter_id_s s = id_v voter \<and> election_id_s s = sd_election_id sd)
                (vote_submissions d) \<noteq> [] then None
      else if filter (\<lambda>s. tx_hash_s s = tx_hash) (vote_submissions d) \<noteq> [] then None
      else if filter (\<lambda>e. id_e e = sd_election_id sd) (elections d) = [] then None
      else if filter (\<lambda>t. tx_hash_t t = tx_hash) (blockchain_txns d) \<noteq> [] then None
      else
        (let d1 = d\<lparr>vote_submissions := vote_submissions d @
                      [\<lparr>voter_id_s = id_v voter,
                        election_id_s = sd_election_id sd,
                        session_id_s = sd_session_id sd,
                        tx_hash_s = tx_hash,
                        block_number_s = block_number,
                        gas_used_s = gas_used,
                        submitted_at = now\<rparr>]\<rparr>;
             d2 = update_voter d1 (sd_voter_id sd)
                    (\<lambda>v. v\<lparr>has_voted := True, voted_at := Some now, vote_tx_hash := Some tx_hash\<rparr>);
             d3 = d2\<lparr>blockchain_txns := blockchain_txns d2 @
                       [\<lparr>election_id_t = sd_election_id sd,
                         tx_hash_t = tx_hash,
                         block_number_t = block_number,
                         gas_used_t = gas_used\<rparr>]\<rparr>
         in Some d3))"

text \<open>
  \<^verbatim>\<open>cast_vote\<close>, given the session data produced by the session dependency. The result
  is the receipt or the HTTP error, the database and the replay store after the request.
\<close>

definition cast_vote ::
  "db \<Rightarrow> token_store \<Rightarrow> int \<Rightarrow> session_data \<Rightarrow> string \<Rightarrow> ledger_result \<Rightarrow> bool
     \<Rightarrow> (http_error + vote_receipt) \<times> db \<times> token_store" where
  "cast_vote d used now sd candidate_id blockchain_result storage_ok =
     (if used (sd_session_id sd) \<noteq> None then (Inl TokenAlreadyUsed, d, used)
      else case voters d (sd_voter_id sd) of
        None \<Rightarrow> (Inl CastVoterNotFound, d, used)
      | Some voter \<Rightarrow>
          if has_voted voter then (Inl CastAlreadyVoted, d, used)
          else if locked_out voter then (Inl CastAccountLocked, d, used)
          else case select_candidate d candidate_id (sd_election_id sd) of
            None \<Rightarrow> (Inl CandidateNotFound, d, used)
          | Some cand \<Rightarrow>
              if \<not> is_active cand then (Inl CandidateNotActive, d, used)
              else if constituency_id_c cand \<noteq> sd_constituency_id sd
                then (Inl CandidateWrongConstituency, d, used)
              else case constituencies d (sd_constituency_id sd) of
                None \<Rightarrow> (Inl ConstituencyNotFound, d, used)
              | Some constit \<Rightarrow>
                  (case blockchain_result of
                     Inl msg \<Rightarrow> (Inl (BlockchainUnavailable msg), d, used)
                   | Inr (h, block_number, gas_used) \<Rightarrow>
                       (let tx_hash = (if take 2 h = ''0x'' then h else ''0x'' @ h) in
                        case commit_vote d storage_ok now voter sd tx_hash block_number gas_used of
                          None \<Rightarrow> (Inl CastVoteFailed, d, used)
                        | Some d' \<Rightarrow>
                            (Inr \<lparr>tx_hash_r = tx_hash, block_number_r = block_number,
                                  timestamp_r = now\<rparr>,
                             d',
                             clean_expired_tokens
                               (used(sd_session_id sd \<mapsto> now + 10 * 60)) now))))"

subsection \<open>Sequences of requests\<close>

datatype operation =
    Authenticate auth_method int string sample_result string string bool
  | CastVote int session_data string ledger_result bool

record system =
  sys_db :: db
  used_tokens :: token_store


fun step :: "crypto_lib \<Rightarrow> settings \<Rightarrow> system \<Rightarrow> operation \<Rightarrow> system" where
  "step lib st s (Authenticate m now voter_id sample ip session_id log_ok) =
     s\<lparr>sys_db := snd (authenticate lib st m (sys_db s) now voter_id sample ip session_id log_ok)\<rparr>"
| "step lib st s (CastVote now sd candidate_id blockchain_result storage_ok) =
     (case cast_vote (sys_db s) (used_tokens s) now sd candidate_id blockchain_result storage_ok of
        (r, d', used') \<Rightarrow> \<lparr>sys_db = d', used_tokens = used'\<rparr>)"

fun run :: "crypto_lib \<Rightarrow> settings \<Rightarrow> system \<Rightarrow> operation list \<Rightarrow> system" where
  "run lib st s [] = s"
| "run lib st s (x # xs) = run lib st (step lib st s x) xs"

text \<open>The vote submissions of a voter row, and of a voter row in one election.\<close>

definition submissions_of :: "db \<Rightarrow> voter \<Rightarrow> vote_submission list" where
  "submissions_of d v = filter (\<lambda>s. voter_id_s s = id_v v) (vote_submissions d)"

definition submissions_in :: "db \<Rightarrow> voter \<Rightarrow> string \<Rightarrow> vote_submission list" where
  "submissions_in d v election_id =
     filter (\<lambda>s. voter_id_s s = id_v v \<and> election_id_s s = election_id) (vote_submissions d)"

subsection \<open>The contract of the external libraries, and an instance of it\<close>

text \<open>
  What \<^verbatim>\<open>crypto.py\<close> relies on: with a 32-byte key and a 12-byte nonce, AES-GCM
  encryption succeeds, decryption inverts it, and decryption of a ciphertext (with its tag)
  in which one byte was changed raises InvalidTag; base64 decoding inverts encoding.
\<close>

definition aead_contract :: "crypto_lib \<Rightarrow> bool" where
  "aead_contract lib \<longleftrightarrow>
     (\<forall>key nonce data. length key = 32 \<and> length nonce = 12 \<longrightarrow>
        (\<exists>ct. aesgcm_encrypt lib key nonce data = Inr ct
            \<and> aesgcm_decrypt lib key nonce ct = Inr data
            \<and> (\<forall>i b. i < length ct \<and> b \<noteq> ct ! i \<longrightarrow>
                  aesgcm_decrypt lib key nonce (ct[i := b]) = Inl InvalidTag)))"

definition b64_contract :: "crypto_lib \<Rightarrow> bool" where
  "b64_contract lib \<longleftrightarrow> (\<forall>data. b64decode lib (b64encode lib data) = Inr data)"

text \<open>
  A small instance used to run the definitions on concrete inputs: the ciphertext is the
  data followed by a one-byte checksum of key, nonce and data, and the text encoding maps
  each byte to the character with that code.
\<close>

definition checksum :: "bytes \<Rightarrow> bytes \<Rightarrow> bytes \<Rightarrow> byte" where
  "checksum key nonce data = sum_list key + sum_list nonce + sum_list data"

definition sample_lib :: crypto_lib where
  "sample_lib =
     \<lparr>aesgcm_encrypt = (\<lambda>key nonce data. Inr (data @ [checksum key nonce data])),
      aesgcm_decrypt = (\<lambda>key nonce ct.
         if ct = [] then Inl InvalidTag
         else if last ct = checksum key nonce (butlast ct) then Inr (butlast ct)
         else Inl InvalidTag),
      b64encode = map (\<lambda>b. char_of (unat b)),
      b64decode = (\<lambda>s. Inr (map of_char s))\<rparr>"

subsection \<open>Invariants of the vote store\<close>

text \<open>
  \<open>voted_once\<close>: a voter row marked as having voted has exactly one vote submission, and
  one not marked has none. \<open>pk_unique\<close>: \<^verbatim>\<open>voters.id\<close> is a key of the table.
  \<open>same_votes\<close>: two databases agree on the vote submissions and on the key and the
  \<^verbatim>\<open>has_voted\<close> flag of every voter row.
\<close>

definition voted_once :: "db \<Rightarrow> bool" where
  "voted_once d \<longleftrightarrow>
     (\<forall>vid v. voters d vid = Some v \<longrightarrow>
        (has_voted v \<longrightarrow> length (submissions_of d v) = 1)
      \<and> (\<not> has_voted v \<longrightarrow> submissions_of d v = []))"

definition pk_unique :: "db \<Rightarrow> bool" where
  "pk_unique d \<longleftrightarrow>
     (\<forall>vid vid' v v'. voters d vid = Some v \<and> voters d vid' = Some v' \<and> id_v v = id_v v'
        \<longrightarrow> vid = vid')"

definition same_votes :: "db \<Rightarrow> db \<Rightarrow> bool" where
  "same_votes d d' \<longleftrightarrow>
     vote_submissions d' = vote_submissions d
   \<and> (\<forall>vid. rel_option (\<lambda>v v'. id_v v = id_v v' \<and> has_voted v = has_voted v')
              (voters d vid) (voters d' vid))"

subsection \<open>A concrete configuration and database\<close>

text \<open>
  The defaults of \<^verbatim>\<open>config.py\<close>, and a database with one active election, one
  constituency, one candidate and two enrolled voters whose stored face template is the
  quantised vector \<open>[127]\<close> encrypted with \<open>sample_lib\<close> under an all-zero nonce.
\<close>

definition sample_settings :: settings where
  "sample_settings =
     \<lparr>JWT_SECRET = ''change-this-secret-in-production-minimum-256-bits'',
      VOTING_SESSION_SECRET = ''change-this-voting-session-secret'',
      BIOMETRIC_ENCRYPTION_KEY = ''change-this-key-must-be-32-bytes'',
      FACE_THRESHOLD = 68 / 100,
      FINGERPRINT_THRESHOLD = 75 / 100,
      MAX_AUTH_ATTEMPTS = 3,
      LOCKOUT_DURATION_MINUTES = 30\<rparr>"

definition sample_nonce :: bytes where
  "sample_nonce = replicate 12 0"

definition sample_key :: bytes where
  "sample_key = take 32 (encode_utf8 (BIOMETRIC_ENCRYPTION_KEY sample_settings))"

definition sample_template :: "bytes \<Rightarrow> string" where
  "sample_template quantized =
     b64encode sample_lib (sample_nonce @ quantized @ [checksum sample_key sample_nonce quantized])"

definition sample_voter :: "string \<Rightarrow> string \<Rightarrow> voter" where
  "sample_voter pk nm =
     \<lparr>id_v = pk,
      full_name = nm,
      constituency_id_v = ''k1'',
      has_voted = False,
      voted_at = None,
      vote_tx_hash = None,
      face_embedding_hash = ''h'',
      encrypted_face_embedding = sample_template [127],
      fingerprint_template_hash = ''h'',
      encrypted_fingerprint_template = sample_template [127],
      biometric_salt = ''salt'',
      failed_auth_count = 0,
      locked_out = False,
      lockout_at = None,
      blockchain_voter_id = ''0x'' @ pk\<rparr>"

definition sample_db :: db where
  "sample_db =
     \<lparr>voters = [''V1'' \<mapsto> sample_voter ''u1'' ''Alice'', ''V2'' \<mapsto> sample_voter ''u2'' ''Bob''],
      constituencies = [''k1'' \<mapsto> \<lparr>name_k = ''North'', on_chain_id_k = 1\<rparr>],
      candidates = [''c1'' \<mapsto> \<lparr>election_id_c = ''e1'', constituency_id_c = ''k1'',
                                on_chain_id_c = 1, is_active = True\<rparr>],
      elections = [\<lparr>id_e = ''e1'', status_e = ''active'', created_at_e = 0\<rparr>],
      auth_attempts = [],
      vote_submissions = [],
      blockchain_txns = []\<rparr>"

definition sample_session :: "string \<Rightarrow> string \<Rightarrow> session_data" where
  "sample_session voter_id session_id =
     \<lparr>sd_voter_id = voter_id, sd_election_id = ''e1'', sd_constituency_id = ''k1'',
      sd_session_id = session_id\<rparr>"

text \<open>The throttle fields of a voter row: failed count, lock flag and lock time.\<close>

definition throttle_state :: "db \<Rightarrow> string \<Rightarrow> (int \<times> bool \<times> int option) option" where
  "throttle_state d vid =
     (case voters d vid of
        None \<Rightarrow> None
      | Some v \<Rightarrow> Some (failed_auth_count v, locked_out v, lockout_at v))"

definition sample_system :: system where
  "sample_system = \<lparr>sys_db = sample_db, used_tokens = Map.empty\<rparr>"

text \<open>The first sample voter after a lockout at time 0 with three recorded failures.\<close>

definition locked_db :: db where
  "locked_db =
     update_voter sample_db ''V1''
       (\<lambda>v. v\<lparr>failed_auth_count := 3, locked_out := True, lockout_at := Some 0\<rparr>)"

text \<open>The first sample voter with a stored face template that is no longer valid base64 of a ciphertext.\<close>

definition corrupted_db :: db where
  "corrupted_db = update_voter sample_db ''V1'' (\<lambda>v. v\<lparr>encrypted_face_embedding := []\<rparr>)"

text \<open>
  The token-level conditions of \<^verbatim>\<open>get_current_session\<close>: signed with the voting-session
  secret, not expired, of type \<^verbatim>\<open>voting_session\<close>, and carrying all four claims.
\<close>

definition token_accepted :: "settings \<Rightarrow> int \<Rightarrow> token \<Rightarrow> bool" where
  "token_accepted st now tok \<longleftrightarrow>
     signed_with tok = VOTING_SESSION_SECRET st
   \<and> (case claim_exp tok of None \<Rightarrow> True | Some expiry \<Rightarrow> now \<le> expiry)
   \<and> claim_type tok = Some ''voting_session''
   \<and> truthy (claim_voter_id tok) \<and> truthy (claim_election_id tok)
   \<and> truthy (claim_constituency_id tok) \<and> truthy (claim_session_id tok)"

definition token_session :: "token \<Rightarrow> session_data" where
  "token_session tok =
     \<lparr>sd_voter_id = the (claim_voter_id tok),
      sd_election_id = the (claim_election_id tok),
      sd_constituency_id = the (claim_constituency_id tok),
      sd_session_id = the (claim_session_id tok)\<rparr>"

text \<open>The sample database with a second election in the \<^verbatim>\<open>elections\<close> table.\<close>

definition two_election_db :: db where
  "two_election_db =
     sample_db\<lparr>elections := [\<lparr>id_e = ''e1'', status_e = ''active'', created_at_e = 0\<rparr>,
                              \<lparr>id_e = ''e2'', status_e = ''configured'', created_at_e = 1\<rparr>]\<rparr>"

section \<open>Verified properties\<close>

subsection \<open>Quantisation round trip\<close>













subsection \<open>Encryption of templates\<close>

lemma byte_char_roundtrip: "of_char (char_of (unat (b::byte))) = b"
proof -
  have lt: "unat b < 256" using unsigned_less[of b, where ?'a = nat] by simp
  have "(of_char (char_of (unat b)) :: nat) = unat b mod 256" by (rule of_char_of)
  with lt have n: "(of_char (char_of (unat b)) :: nat) = unat b" by simp
  have "(of_char (char_of (unat b)) :: byte) = of_nat (of_char (char_of (unat b)))"
    by (rule of_nat_of_char[symmetric])
  also have "\<dots> = of_nat (unat b)" by (simp only: n)
  also have "\<dots> = b" by simp
  finally show ?thesis .
qed

lemma sample_lib_b64: "b64_contract sample_lib"
  unfolding b64_contract_def sample_lib_def
  by (simp add: comp_def byte_char_roundtrip map_idI)

lemma sum_list_update_ring:
  "i < length xs \<Longrightarrow> sum_list (xs[i := b]) = sum_list xs - xs ! i + (b::'a::ring)"
proof (induction xs arbitrary: i)
  case Nil then show ?case by simp
next
  case (Cons x xs)
  show ?case
  proof (cases i)
    case 0 then show ?thesis by simp
  next
    case (Suc j)
    with Cons.prems have "j < length xs" by simp
    from Cons.IH[OF this] show ?thesis using Suc by (simp add: algebra_simps)
  qed
qed

lemma checksum_update:
  assumes "i < length data" "b \<noteq> data ! i"
  shows "checksum key nonce (data[i := b]) \<noteq> checksum key nonce data"
proof
  assume "checksum key nonce (data[i := b]) = checksum key nonce data"
  then have "sum_list (data[i := b]) = sum_list data" by (simp add: checksum_def)
  then have "sum_list data - data ! i + b = sum_list data"
    using sum_list_update_ring[OF assms(1), of b] by simp
  then have "b = data ! i" by (simp add: algebra_simps)
  with assms(2) show False by simp
qed

lemma sample_lib_aead: "aead_contract sample_lib"
  unfolding aead_contract_def
proof (intro allI impI)
  fix key nonce data :: bytes
  let ?ct = "data @ [checksum key nonce data]"
  have e: "aesgcm_encrypt sample_lib key nonce data = Inr ?ct" by (simp add: sample_lib_def)
  have d: "aesgcm_decrypt sample_lib key nonce ?ct = Inr data" by (simp add: sample_lib_def)
  have t: "\<forall>i b. i < length ?ct \<and> b \<noteq> ?ct ! i \<longrightarrow>
            aesgcm_decrypt sample_lib key nonce (?ct[i := b]) = Inl InvalidTag"
  proof (intro allI impI)
    fix i b assume a: "i < length ?ct \<and> b \<noteq> ?ct ! i"
    show "aesgcm_decrypt sample_lib key nonce (?ct[i := b]) = Inl InvalidTag"
    proof (cases "i < length data")
      case True
      with a have "b \<noteq> data ! i" by (simp add: nth_append)
      from checksum_update[OF True this]
      have "checksum key nonce data \<noteq> checksum key nonce (data[i := b])" by (rule not_sym)
      then show ?thesis using True by (simp add: sample_lib_def list_update_append)
    next
      case False
      with a have i: "i = length data" by simp
      with a have "b \<noteq> checksum key nonce data" by simp
      then show ?thesis using i by (simp add: sample_lib_def)
    qed
  qed
  from e d t show "\<exists>ct. aesgcm_encrypt sample_lib key nonce data = Inr ct
            \<and> aesgcm_decrypt sample_lib key nonce ct = Inr data
            \<and> (\<forall>i b. i < length ct \<and> b \<noteq> ct ! i \<longrightarrow>
                  aesgcm_decrypt sample_lib key nonce (ct[i := b]) = Inl InvalidTag)"
    by blast
qed

lemma sample_key_length: "length sample_key = 32"
  by (simp add: sample_key_def sample_settings_def encode_utf8_def)

lemma sample_b64_roundtrip: "b64decode sample_lib (b64encode sample_lib data) = Inr data"
  using sample_lib_b64 by (simp add: b64_contract_def)

lemma sample_decrypt_template:
  "decrypt_biometric sample_lib (BIOMETRIC_ENCRYPTION_KEY sample_settings) (sample_template q) = Inr q"
proof -
  have "aesgcm_decrypt sample_lib sample_key sample_nonce (q @ [checksum sample_key sample_nonce q]) = Inr q"
    by (simp add: sample_lib_def)
  then show ?thesis
    by (simp add: decrypt_biometric_def sample_template_def sample_b64_roundtrip
        sample_key_def[symmetric] sample_nonce_def[symmetric])
      (simp add: sample_nonce_def)
qed

text \<open>
  C7: for every byte string \<open>t\<close>, decrypting what \<^verbatim>\<open>encrypt_biometric\<close> produced gives
  \<open>t\<close> back exactly, and changing any single byte of the stored data after the 12-byte
  nonce makes \<^verbatim>\<open>decrypt_biometric\<close> raise InvalidTag instead of returning a plaintext.
  AES-GCM and base64 are the external libraries; the theorem holds for every library
  that meets their contract, with the 32-byte key of the settings and a 12-byte nonce.
\<close>

theorem biometric_encryption_roundtrip_and_tamper:
  assumes lib: "aead_contract lib" "b64_contract lib"
      and key: "length (take 32 (encode_utf8 encryption_key)) = 32"
      and nonce: "length nonce = 12"
  shows "\<exists>ct. aesgcm_encrypt lib (take 32 (encode_utf8 encryption_key)) nonce t = Inr ct
           \<and> encrypt_biometric lib encryption_key nonce t = Inr (b64encode lib (nonce @ ct))
           \<and> decrypt_biometric lib encryption_key (b64encode lib (nonce @ ct)) = Inr t
           \<and> (\<forall>j b. 12 \<le> j \<and> j < length (nonce @ ct) \<and> b \<noteq> (nonce @ ct) ! j \<longrightarrow>
                 decrypt_biometric lib encryption_key (b64encode lib ((nonce @ ct)[j := b]))
                   = Inl InvalidTag)"
proof -
  let ?key = "take 32 (encode_utf8 encryption_key)"
  from lib(1) key nonce obtain ct where
    e: "aesgcm_encrypt lib ?key nonce t = Inr ct" and
    d: "aesgcm_decrypt lib ?key nonce ct = Inr t" and
    a: "\<forall>i b. i < length ct \<and> b \<noteq> ct ! i \<longrightarrow> aesgcm_decrypt lib ?key nonce (ct[i := b]) = Inl InvalidTag"
    unfolding aead_contract_def by blast
  have b64: "\<And>data. b64decode lib (b64encode lib data) = Inr data"
    using lib(2) by (simp add: b64_contract_def)
  have enc: "encrypt_biometric lib encryption_key nonce t = Inr (b64encode lib (nonce @ ct))"
    using e by (simp add: encrypt_biometric_def)
  have dec: "decrypt_biometric lib encryption_key (b64encode lib (nonce @ ct)) = Inr t"
    using d nonce by (simp add: decrypt_biometric_def b64)
  have tam: "\<forall>j b. 12 \<le> j \<and> j < length (nonce @ ct) \<and> b \<noteq> (nonce @ ct) ! j \<longrightarrow>
                 decrypt_biometric lib encryption_key (b64encode lib ((nonce @ ct)[j := b]))
                   = Inl InvalidTag"
  proof (intro allI impI)
    fix j b assume h: "12 \<le> j \<and> j < length (nonce @ ct) \<and> b \<noteq> (nonce @ ct) ! j"
    then have i: "j - 12 < length ct" using nonce by auto
    from h have nb: "b \<noteq> ct ! (j - 12)" using nonce by (auto simp: nth_append)
    have upd: "(nonce @ ct)[j := b] = nonce @ ct[j - 12 := b]"
      using h nonce by (simp add: list_update_append)
    from a i nb have "aesgcm_decrypt lib ?key nonce (ct[j - 12 := b]) = Inl InvalidTag" by blast
    then show "decrypt_biometric lib encryption_key (b64encode lib ((nonce @ ct)[j := b])) = Inl InvalidTag"
      using nonce by (simp add: decrypt_biometric_def b64 upd)
  qed
  from e enc dec tam show ?thesis by blast
qed

theorem biometric_encryption_roundtrip_and_tamper_witness:
  "aead_contract sample_lib \<and> b64_contract sample_lib
   \<and> length (take 32 (encode_utf8 ''change-this-key-must-be-32-bytes'')) = 32
   \<and> length (replicate 12 (0::byte)) = 12
   \<and> (\<exists>ct. aesgcm_encrypt sample_lib (take 32 (encode_utf8 ''change-this-key-must-be-32-bytes''))
               (replicate 12 0) [1, 2, 3] = Inr ct
           \<and> encrypt_biometric sample_lib ''change-this-key-must-be-32-bytes'' (replicate 12 0) [1, 2, 3]
               = Inr (b64encode sample_lib (replicate 12 0 @ ct))
           \<and> decrypt_biometric sample_lib ''change-this-key-must-be-32-bytes''
               (b64encode sample_lib (replicate 12 0 @ ct)) = Inr [1, 2, 3]
           \<and> (\<forall>j b. 12 \<le> j \<and> j < length (replicate 12 0 @ ct) \<and> b \<noteq> (replicate 12 0 @ ct) ! j \<longrightarrow>
                 decrypt_biometric sample_lib ''change-this-key-must-be-32-bytes''
                   (b64encode sample_lib ((replicate 12 0 @ ct)[j := b])) = Inl InvalidTag))"
proof -
  have k: "length (take 32 (encode_utf8 ''change-this-key-must-be-32-bytes'')) = 32"
    by (simp add: encode_utf8_def)
  have n: "length (replicate 12 (0::byte)) = 12" by simp
  from biometric_encryption_roundtrip_and_tamper[OF sample_lib_aead sample_lib_b64 k n, of "[1, 2, 3]"]
  show ?thesis using sample_lib_aead sample_lib_b64 k n by blast
qed

subsection \<open>Similarity score and match decision\<close>

lemma cosine_similarity_range: "0 \<le> cosine_similarity a b \<and> cosine_similarity a b \<le> 1"
  by (simp add: cosine_similarity_def Let_def)

lemma cosine_similarity_degenerate:
  "length a \<noteq> length b \<or> norm2 a = 0 \<or> norm2 b = 0 \<Longrightarrow> cosine_similarity a b = 0"
  by (auto simp: cosine_similarity_def Let_def)

lemma compare_embeddings_cases:
  "compare_embeddings lib key thr live stored =
     (case decrypt_biometric lib key stored of
        Inl e \<Rightarrow> Inr (False, 0)
      | Inr bs \<Rightarrow>
          if length bs \<noteq> length live then Inr (False, 0)
          else Inr (thr \<le> cosine_similarity live (map (\<lambda>b. real_of_int (sint b) / 127) bs),
                    cosine_similarity live (map (\<lambda>b. real_of_int (sint b) / 127) bs)))"
  by (simp add: compare_embeddings_def compare_embeddings_body_def dequantize_embedding_def Let_def
      split: sum.splits)

text \<open>
  C9, as stated: whenever either vector has zero norm the result is score 0 and
  \<open>matched = False\<close>, for every threshold in \<open>[0, 1]\<close>. With threshold 0 and a zero
  live vector the score is 0 and \<open>matched = (0 \<ge> 0) = True\<close>.
\<close>

theorem compare_embeddings_zero_threshold_counterexample:
  "norm2 [0] = 0
   \<and> decrypt_biometric sample_lib (BIOMETRIC_ENCRYPTION_KEY sample_settings) (sample_template [0]) = Inr [0]
   \<and> dequantize_embedding [0] (length [0::real]) = Inr [0]
   \<and> (0::real) \<le> 0 \<and> (0::real) \<le> 1
   \<and> compare_embeddings sample_lib (BIOMETRIC_ENCRYPTION_KEY sample_settings) 0 [0] (sample_template [0])
       = Inr (True, 0)"
  by (simp add: compare_embeddings_cases sample_decrypt_template norm2_def dequantize_embedding_def
      cosine_similarity_def)

text \<open>
  C9, amended: for every threshold above 0, \<^verbatim>\<open>compare_embeddings\<close> returns a score in
  \<open>[0, 1]\<close> with \<open>matched = (score \<ge> threshold)\<close>; when the stored template decrypts
  to a vector of the live vector's shape the score is their clamped cosine similarity;
  and when the shapes differ or either vector has zero norm, the score is 0 and
  \<open>matched\<close> is false.
\<close>

theorem compare_embeddings_score:
  assumes "0 < threshold"
  shows "\<exists>matched score.
           compare_embeddings lib key threshold live stored = Inr (matched, score)
         \<and> 0 \<le> score \<and> score \<le> 1
         \<and> (matched \<longleftrightarrow> score \<ge> threshold)
         \<and> (\<forall>bs. decrypt_biometric lib key stored = Inr bs \<and> length bs = length live \<longrightarrow>
               score = cosine_similarity live (map (\<lambda>b. real_of_int (sint b) / 127) bs))
         \<and> (\<forall>bs. decrypt_biometric lib key stored = Inr bs \<and> length bs \<noteq> length live \<longrightarrow>
               score = 0 \<and> \<not> matched)
         \<and> (\<forall>bs sv. decrypt_biometric lib key stored = Inr bs
                  \<and> dequantize_embedding bs (length live) = Inr sv
                  \<and> (norm2 live = 0 \<or> norm2 sv = 0) \<longrightarrow> score = 0 \<and> \<not> matched)"
proof (cases "decrypt_biometric lib key stored")
  case (Inl e)
  then have "compare_embeddings lib key threshold live stored = Inr (False, 0)"
    by (simp add: compare_embeddings_cases)
  then show ?thesis using assms Inl
    by (intro exI[of _ False] exI[of _ "0::real"]) simp
next
  case (Inr bs)
  show ?thesis
  proof (cases "length bs = length live")
    case False
    then have "compare_embeddings lib key threshold live stored = Inr (False, 0)"
      using Inr by (simp add: compare_embeddings_cases)
    then show ?thesis using assms Inr False
      by (intro exI[of _ False] exI[of _ "0::real"]) (simp add: dequantize_embedding_def)
  next
    case True
    let ?sv = "map (\<lambda>b. real_of_int (sint b) / 127) bs"
    let ?s = "cosine_similarity live ?sv"
    have c: "compare_embeddings lib key threshold live stored = Inr (threshold \<le> ?s, ?s)"
      using Inr True by (simp add: compare_embeddings_cases)
    have r: "0 \<le> ?s \<and> ?s \<le> 1" by (rule cosine_similarity_range)
    have z: "norm2 live = 0 \<or> norm2 ?sv = 0 \<Longrightarrow> ?s = 0"
      by (rule cosine_similarity_degenerate) simp
    show ?thesis using c r z assms Inr True
      by (intro exI[of _ "threshold \<le> ?s"] exI[of _ ?s]) (auto simp: dequantize_embedding_def)
  qed
qed

theorem compare_embeddings_score_witness:
  "(0::real) < 68 / 100 \<and>
   (\<exists>matched score.
           compare_embeddings sample_lib (BIOMETRIC_ENCRYPTION_KEY sample_settings) (68 / 100) [0]
              (sample_template [127]) = Inr (matched, score)
         \<and> 0 \<le> score \<and> score \<le> 1
         \<and> (matched \<longleftrightarrow> score \<ge> 68 / 100)
         \<and> (\<forall>bs. decrypt_biometric sample_lib (BIOMETRIC_ENCRYPTION_KEY sample_settings) (sample_template [127]) = Inr bs
                 \<and> length bs = length [0::real] \<longrightarrow>
               score = cosine_similarity [0] (map (\<lambda>b. real_of_int (sint b) / 127) bs))
         \<and> (\<forall>bs. decrypt_biometric sample_lib (BIOMETRIC_ENCRYPTION_KEY sample_settings) (sample_template [127]) = Inr bs
                 \<and> length bs \<noteq> length [0::real] \<longrightarrow>
               score = 0 \<and> \<not> matched)
         \<and> (\<forall>bs sv. decrypt_biometric sample_lib (BIOMETRIC_ENCRYPTION_KEY sample_settings) (sample_template [127]) = Inr bs
                  \<and> dequantize_embedding bs (length [0::real]) = Inr sv
                  \<and> (norm2 [0] = 0 \<or> norm2 sv = 0) \<longrightarrow> score = 0 \<and> \<not> matched))
   \<and> decrypt_biometric sample_lib (BIOMETRIC_ENCRYPTION_KEY sample_settings) (sample_template [127]) = Inr [127]
   \<and> norm2 [0] = 0"
proof -
  have p: "(0::real) < 68 / 100" by simp
  from compare_embeddings_score[OF p, of sample_lib "BIOMETRIC_ENCRYPTION_KEY sample_settings" "[0]" "sample_template [127]"]
  show ?thesis using p by (simp add: sample_decrypt_template norm2_def)
qed

subsection \<open>The attempt throttle\<close>

lemma log_auth_attempt_tables:
  "voters (log_auth_attempt d ok now vid m oc r s ip) = voters d"
  "constituencies (log_auth_attempt d ok now vid m oc r s ip) = constituencies d"
  "candidates (log_auth_attempt d ok now vid m oc r s ip) = candidates d"
  "elections (log_auth_attempt d ok now vid m oc r s ip) = elections d"
  "vote_submissions (log_auth_attempt d ok now vid m oc r s ip) = vote_submissions d"
  "blockchain_txns (log_auth_attempt d ok now vid m oc r s ip) = blockchain_txns d"
  by (simp_all add: log_auth_attempt_def)

lemma update_voter_tables:
  "constituencies (update_voter d vid f) = constituencies d"
  "candidates (update_voter d vid f) = candidates d"
  "elections (update_voter d vid f) = elections d"
  "auth_attempts (update_voter d vid f) = auth_attempts d"
  "vote_submissions (update_voter d vid f) = vote_submissions d"
  "blockchain_txns (update_voter d vid f) = blockchain_txns d"
  by (simp_all add: update_voter_def split: option.splits)

lemma update_voter_voters:
  "voters (update_voter d vid f) vid' =
     (if vid' = vid then map_option f (voters d vid) else voters d vid')"
  by (simp add: update_voter_def split: option.splits)

lemma select_voter_joined_Some:
  "select_voter_joined d vid = Some (v, c) \<longleftrightarrow>
     voters d vid = Some v \<and> constituencies d (constituency_id_v v) = Some c"
  by (auto simp: select_voter_joined_def split: option.splits)

lemma authenticate_mismatch:
  assumes "select_voter_joined d vid = Some (voter, constit)"
      and "\<not> has_voted voter" "\<not> locked_out voter"
      and "failed_auth_count voter < MAX_AUTH_ATTEMPTS st"
      and "compare_embeddings lib (BIOMETRIC_ENCRYPTION_KEY st) (method_threshold st m) live
             (stored_template m voter) = Inr (False, score)"
  shows "authenticate lib st m d now vid (Embedding live) ip sid log_ok =
           (Inl (BiometricMismatch (MAX_AUTH_ATTEMPTS st - (failed_auth_count voter + 1))),
            log_auth_attempt
              (update_voter d vid (\<lambda>v. v\<lparr>failed_auth_count := failed_auth_count voter + 1\<rparr>))
              log_ok now vid m FAILURE (Some (ReasonNotMatched score)) (Some score) ip)"
  using assms by (simp add: authenticate_def Let_def)

lemma authenticate_max_attempts:
  assumes "select_voter_joined d vid = Some (voter, constit)"
      and "\<not> has_voted voter" "\<not> locked_out voter"
      and "MAX_AUTH_ATTEMPTS st \<le> failed_auth_count voter"
  shows "authenticate lib st m d now vid sample ip sid log_ok =
           (Inl MaxAttemptsExceeded,
            log_auth_attempt
              (update_voter d vid (\<lambda>v. v\<lparr>locked_out := True, lockout_at := Some now\<rparr>))
              log_ok now vid m LOCKOUT (Some ReasonMaxAttempts) None ip)"
  using assms by (simp add: authenticate_def Let_def)

lemma authenticate_expired_lockout:
  assumes "select_voter_joined d vid = Some (voter, constit)"
      and "\<not> has_voted voter" "locked_out voter"
      and "lockout_at voter = Some t" "t + LOCKOUT_DURATION_MINUTES st * 60 \<le> now"
      and "MAX_AUTH_ATTEMPTS st \<le> failed_auth_count voter"
  shows "authenticate lib st m d now vid sample ip sid log_ok =
           (Inl MaxAttemptsExceeded,
            log_auth_attempt
              (update_voter
                 (update_voter d vid (\<lambda>v. v\<lparr>locked_out := False, failed_auth_count := 0\<rparr>))
                 vid (\<lambda>v. v\<lparr>locked_out := True, lockout_at := Some now\<rparr>))
              log_ok now vid m LOCKOUT (Some ReasonMaxAttempts) None ip)"
  using assms by (simp add: authenticate_def Let_def)

lemma stored_template_throttle [simp]:
  "stored_template m (v\<lparr>failed_auth_count := n\<rparr>) = stored_template m v"
  by (cases m) (simp_all add: stored_template_def)

lemma mismatch_step:
  assumes sel: "select_voter_joined d vid = Some (voter, constit)"
      and nv: "\<not> has_voted voter" and nl: "\<not> locked_out voter"
      and lt: "failed_auth_count voter < MAX_AUTH_ATTEMPTS st"
      and cmp: "compare_embeddings lib (BIOMETRIC_ENCRYPTION_KEY st) (method_threshold st m) live
             (stored_template m voter) = Inr (False, score)"
  shows "fst (authenticate lib st m d now vid (Embedding live) ip sid log_ok)
           = Inl (BiometricMismatch (MAX_AUTH_ATTEMPTS st - (failed_auth_count voter + 1)))"
    and "select_voter_joined (snd (authenticate lib st m d now vid (Embedding live) ip sid log_ok)) vid
           = Some (voter\<lparr>failed_auth_count := failed_auth_count voter + 1\<rparr>, constit)"
    and "auth_attempts (snd (authenticate lib st m d now vid (Embedding live) ip sid log_ok))
           = auth_attempts d @
             (if log_ok then
                [\<lparr>voter_ref = Some (id_v voter), method_a = m, outcome_a = FAILURE,
                  failure_reason_a = Some (ReasonNotMatched score), similarity_score_a = Some score,
                  ip_address_a = ip, attempted_at = now\<rparr>]
              else [])"
proof -
  note a = authenticate_mismatch[OF sel nv nl lt cmp, of now ip sid log_ok]
  from sel have v: "voters d vid = Some voter"
    and c: "constituencies d (constituency_id_v voter) = Some constit"
    by (simp_all add: select_voter_joined_Some)
  show "fst (authenticate lib st m d now vid (Embedding live) ip sid log_ok)
           = Inl (BiometricMismatch (MAX_AUTH_ATTEMPTS st - (failed_auth_count voter + 1)))"
    by (simp add: a)
  show "select_voter_joined (snd (authenticate lib st m d now vid (Embedding live) ip sid log_ok)) vid
           = Some (voter\<lparr>failed_auth_count := failed_auth_count voter + 1\<rparr>, constit)"
    using v c
    by (simp add: a select_voter_joined_Some log_auth_attempt_tables update_voter_voters
        update_voter_tables)
  show "auth_attempts (snd (authenticate lib st m d now vid (Embedding live) ip sid log_ok))
           = auth_attempts d @
             (if log_ok then
                [\<lparr>voter_ref = Some (id_v voter), method_a = m, outcome_a = FAILURE,
                  failure_reason_a = Some (ReasonNotMatched score), similarity_score_a = Some score,
                  ip_address_a = ip, attempted_at = now\<rparr>]
              else [])"
    using v by (simp add: a log_auth_attempt_def update_voter_voters update_voter_tables)
qed

lemma sample_select_V1:
  "select_voter_joined sample_db ''V1'' =
     Some (sample_voter ''u1'' ''Alice'', \<lparr>name_k = ''North'', on_chain_id_k = 1\<rparr>)"
  by (simp add: select_voter_joined_def sample_db_def sample_voter_def)

lemma locked_select_V1:
  "select_voter_joined locked_db ''V1'' =
     Some ((sample_voter ''u1'' ''Alice'')\<lparr>failed_auth_count := 3, locked_out := True, lockout_at := Some 0\<rparr>,
           \<lparr>name_k = ''North'', on_chain_id_k = 1\<rparr>)"
  by (simp add: select_voter_joined_def locked_db_def update_voter_def sample_db_def sample_voter_def)

lemma sample_compare_match:
  "compare_embeddings sample_lib (BIOMETRIC_ENCRYPTION_KEY sample_settings) (68 / 100) [1]
     (sample_template [127]) = Inr (True, 1)"
  by (simp add: compare_embeddings_cases sample_decrypt_template cosine_similarity_def dot_def norm2_def)

lemma sample_compare_mismatch:
  "compare_embeddings sample_lib (BIOMETRIC_ENCRYPTION_KEY sample_settings) (68 / 100) [-1]
     (sample_template [127]) = Inr (False, 0)"
  by (simp add: compare_embeddings_cases sample_decrypt_template cosine_similarity_def dot_def norm2_def)

text \<open>
  C4 says that a locked-out voter whose lockout has elapsed is reset and then treated as
  an active voter, so that a matching sample succeeds. The handler does write the reset
  (\<^verbatim>\<open>locked_out = FALSE, failed_auth_count = 0\<close>), but the next test reads
  \<^verbatim>\<open>voter.failed_auth_count\<close> from the row fetched before the reset. Every voter
  locked by this handler has that count at or above the maximum, so the request is
  answered 403 "Maximum authentication attempts exceeded" and the voter is locked again
  from \<open>now\<close>, whatever the sample.
\<close>

theorem expired_lockout_is_relocked:
  assumes "select_voter_joined d vid = Some (voter, constit)"
      and "\<not> has_voted voter" "locked_out voter"
      and "lockout_at voter = Some t" "t + LOCKOUT_DURATION_MINUTES st * 60 \<le> now"
      and "MAX_AUTH_ATTEMPTS st \<le> failed_auth_count voter"
  shows "fst (authenticate lib st m d now vid sample ip sid log_ok) = Inl MaxAttemptsExceeded
       \<and> throttle_state (snd (authenticate lib st m d now vid sample ip sid log_ok)) vid
           = Some (0, True, Some now)"
proof -
  from assms(1) have v: "voters d vid = Some voter" by (simp add: select_voter_joined_Some)
  show ?thesis
    using v
    by (simp add: authenticate_expired_lockout[OF assms] throttle_state_def
        log_auth_attempt_tables update_voter_voters)
qed

theorem expired_lockout_is_relocked_witness:
  "select_voter_joined locked_db ''V1'' =
     Some ((sample_voter ''u1'' ''Alice'')\<lparr>failed_auth_count := 3, locked_out := True, lockout_at := Some 0\<rparr>,
           \<lparr>name_k = ''North'', on_chain_id_k = 1\<rparr>)
   \<and> (0::int) + LOCKOUT_DURATION_MINUTES sample_settings * 60 \<le> 1800
   \<and> MAX_AUTH_ATTEMPTS sample_settings \<le> 3
   \<and> compare_embeddings sample_lib (BIOMETRIC_ENCRYPTION_KEY sample_settings)
        (method_threshold sample_settings FACE) [1]
        (stored_template FACE ((sample_voter ''u1'' ''Alice'')\<lparr>failed_auth_count := 3, locked_out := True, lockout_at := Some 0\<rparr>))
       = Inr (True, 1)
   \<and> fst (authenticate sample_lib sample_settings FACE locked_db 1800 ''V1'' (Embedding [1])
            ''10.0.0.1'' ''s1'' True) = Inl MaxAttemptsExceeded
   \<and> throttle_state (snd (authenticate sample_lib sample_settings FACE locked_db 1800 ''V1''
            (Embedding [1]) ''10.0.0.1'' ''s1'' True)) ''V1'' = Some (0, True, Some 1800)"
proof -
  have h: "\<not> has_voted ((sample_voter ''u1'' ''Alice'')\<lparr>failed_auth_count := 3, locked_out := True, lockout_at := Some 0\<rparr>)"
     "locked_out ((sample_voter ''u1'' ''Alice'')\<lparr>failed_auth_count := 3, locked_out := True, lockout_at := Some 0\<rparr>)"
     "lockout_at ((sample_voter ''u1'' ''Alice'')\<lparr>failed_auth_count := 3, locked_out := True, lockout_at := Some 0\<rparr>) = Some 0"
     "(0::int) + LOCKOUT_DURATION_MINUTES sample_settings * 60 \<le> 1800"
     "MAX_AUTH_ATTEMPTS sample_settings
        \<le> failed_auth_count ((sample_voter ''u1'' ''Alice'')\<lparr>failed_auth_count := 3, locked_out := True, lockout_at := Some 0\<rparr>)"
    by (simp_all add: sample_voter_def sample_settings_def)
  have c: "compare_embeddings sample_lib (BIOMETRIC_ENCRYPTION_KEY sample_settings)
        (method_threshold sample_settings FACE) [1]
        (stored_template FACE ((sample_voter ''u1'' ''Alice'')\<lparr>failed_auth_count := 3, locked_out := True, lockout_at := Some 0\<rparr>))
       = Inr (True, 1)"
    using sample_compare_match
    by (simp add: method_threshold_def stored_template_def sample_voter_def sample_settings_def)
  from expired_lockout_is_relocked[OF locked_select_V1 h, of sample_lib FACE "Embedding [1]" "''10.0.0.1''" "''s1''" True]
  show ?thesis using locked_select_V1 h c by simp
qed

lemma three_mismatches:
  assumes sel: "select_voter_joined d vid = Some (voter, constit)"
      and nv: "\<not> has_voted voter" and nl: "\<not> locked_out voter"
      and zero: "failed_auth_count voter = 0" and mx: "MAX_AUTH_ATTEMPTS st = 3"
      and c1: "compare_embeddings lib (BIOMETRIC_ENCRYPTION_KEY st) (method_threshold st m1) l1
                 (stored_template m1 voter) = Inr (False, sc1)"
      and c2: "compare_embeddings lib (BIOMETRIC_ENCRYPTION_KEY st) (method_threshold st m2) l2
                 (stored_template m2 voter) = Inr (False, sc2)"
      and c3: "compare_embeddings lib (BIOMETRIC_ENCRYPTION_KEY st) (method_threshold st m3) l3
                 (stored_template m3 voter) = Inr (False, sc3)"
      and d1: "d1 = snd (authenticate lib st m1 d t1 vid (Embedding l1) ip1 sid1 ok1)"
      and d2: "d2 = snd (authenticate lib st m2 d1 t2 vid (Embedding l2) ip2 sid2 ok2)"
      and d3: "d3 = snd (authenticate lib st m3 d2 t3 vid (Embedding l3) ip3 sid3 ok3)"
  shows "select_voter_joined d3 vid = Some (voter\<lparr>failed_auth_count := 3\<rparr>, constit)"
    and "auth_attempts d3
           = auth_attempts d @
             (if ok1 then
                [\<lparr>voter_ref = Some (id_v voter), method_a = m1, outcome_a = FAILURE,
                  failure_reason_a = Some (ReasonNotMatched sc1), similarity_score_a = Some sc1,
                  ip_address_a = ip1, attempted_at = t1\<rparr>]
              else []) @
             (if ok2 then
                [\<lparr>voter_ref = Some (id_v voter), method_a = m2, outcome_a = FAILURE,
                  failure_reason_a = Some (ReasonNotMatched sc2), similarity_score_a = Some sc2,
                  ip_address_a = ip2, attempted_at = t2\<rparr>]
              else []) @
             (if ok3 then
                [\<lparr>voter_ref = Some (id_v voter), method_a = m3, outcome_a = FAILURE,
                  failure_reason_a = Some (ReasonNotMatched sc3), similarity_score_a = Some sc3,
                  ip_address_a = ip3, attempted_at = t3\<rparr>]
              else [])"
proof -
  have lt0: "failed_auth_count voter < MAX_AUTH_ATTEMPTS st" using zero mx by simp
  note s1 = mismatch_step[OF sel nv nl lt0 c1, of t1 ip1 sid1 ok1, folded d1]
  let ?v1 = "voter\<lparr>failed_auth_count := failed_auth_count voter + 1\<rparr>"
  have sel1: "select_voter_joined d1 vid = Some (?v1, constit)" by (rule s1(2))
  have p1: "\<not> has_voted ?v1" "\<not> locked_out ?v1" "failed_auth_count ?v1 < MAX_AUTH_ATTEMPTS st"
    using nv nl zero mx by simp_all
  have c2': "compare_embeddings lib (BIOMETRIC_ENCRYPTION_KEY st) (method_threshold st m2) l2
                 (stored_template m2 ?v1) = Inr (False, sc2)" using c2 by simp
  note s2 = mismatch_step[OF sel1 p1 c2', of t2 ip2 sid2 ok2, folded d2]
  let ?v2 = "?v1\<lparr>failed_auth_count := failed_auth_count ?v1 + 1\<rparr>"
  have sel2: "select_voter_joined d2 vid = Some (?v2, constit)" by (rule s2(2))
  have p2: "\<not> has_voted ?v2" "\<not> locked_out ?v2" "failed_auth_count ?v2 < MAX_AUTH_ATTEMPTS st"
    using nv nl zero mx by simp_all
  have c3': "compare_embeddings lib (BIOMETRIC_ENCRYPTION_KEY st) (method_threshold st m3) l3
                 (stored_template m3 ?v2) = Inr (False, sc3)" using c3 by simp
  note s3 = mismatch_step[OF sel2 p2 c3', of t3 ip3 sid3 ok3, folded d3]
  show "select_voter_joined d3 vid = Some (voter\<lparr>failed_auth_count := 3\<rparr>, constit)"
    using s3(2) zero by simp
  have i: "id_v ?v1 = id_v voter" "id_v ?v2 = id_v voter" by simp_all
  show "auth_attempts d3
           = auth_attempts d @
             (if ok1 then
                [\<lparr>voter_ref = Some (id_v voter), method_a = m1, outcome_a = FAILURE,
                  failure_reason_a = Some (ReasonNotMatched sc1), similarity_score_a = Some sc1,
                  ip_address_a = ip1, attempted_at = t1\<rparr>]
              else []) @
             (if ok2 then
                [\<lparr>voter_ref = Some (id_v voter), method_a = m2, outcome_a = FAILURE,
                  failure_reason_a = Some (ReasonNotMatched sc2), similarity_score_a = Some sc2,
                  ip_address_a = ip2, attempted_at = t2\<rparr>]
              else []) @
             (if ok3 then
                [\<lparr>voter_ref = Some (id_v voter), method_a = m3, outcome_a = FAILURE,
                  failure_reason_a = Some (ReasonNotMatched sc3), similarity_score_a = Some sc3,
                  ip_address_a = ip3, attempted_at = t3\<rparr>]
              else [])"
    unfolding s3(3) s2(3) s1(3) i by simp
qed

lemma run_three_authenticate:
  "sys_db (run lib st s [Authenticate m1 t1 vid x1 ip1 sid1 ok1, Authenticate m2 t2 vid x2 ip2 sid2 ok2,
                         Authenticate m3 t3 vid x3 ip3 sid3 ok3])
   = snd (authenticate lib st m3
            (snd (authenticate lib st m2
                    (snd (authenticate lib st m1 (sys_db s) t1 vid x1 ip1 sid1 ok1))
                    t2 vid x2 ip2 sid2 ok2))
            t3 vid x3 ip3 sid3 ok3)"
  by simp

lemma throttle_state_select:
  "select_voter_joined d vid = Some (v, c) \<Longrightarrow>
     throttle_state d vid = Some (failed_auth_count v, locked_out v, lockout_at v)"
  by (simp add: select_voter_joined_Some throttle_state_def)

text \<open>
  C5, as stated: the third consecutive failed match, which raises the failed count to the
  maximum of 3, sets \<^verbatim>\<open>locked_out\<close> and records the lockout time. After three failed
  matches of the first sample voter the count is 3, but the voter is not locked and no
  lockout time is recorded.
\<close>

theorem third_failure_does_not_lock_counterexample:
  "throttle_state
     (sys_db (run sample_lib sample_settings sample_system
        [Authenticate FACE 10 ''V1'' (Embedding [-1]) ''10.0.0.1'' ''s1'' True,
         Authenticate FACE 20 ''V1'' (Embedding [-1]) ''10.0.0.1'' ''s2'' True,
         Authenticate FACE 30 ''V1'' (Embedding [-1]) ''10.0.0.1'' ''s3'' True])) ''V1''
     = Some (3, False, None)
   \<and> map outcome_a (auth_attempts
     (sys_db (run sample_lib sample_settings sample_system
        [Authenticate FACE 10 ''V1'' (Embedding [-1]) ''10.0.0.1'' ''s1'' True,
         Authenticate FACE 20 ''V1'' (Embedding [-1]) ''10.0.0.1'' ''s2'' True,
         Authenticate FACE 30 ''V1'' (Embedding [-1]) ''10.0.0.1'' ''s3'' True])))
     = [FAILURE, FAILURE, FAILURE]"
proof -
  have sel: "select_voter_joined (sys_db sample_system) ''V1'' =
     Some (sample_voter ''u1'' ''Alice'', \<lparr>name_k = ''North'', on_chain_id_k = 1\<rparr>)"
    using sample_select_V1 by (simp add: sample_system_def)
  have p: "\<not> has_voted (sample_voter ''u1'' ''Alice'')" "\<not> locked_out (sample_voter ''u1'' ''Alice'')"
    "failed_auth_count (sample_voter ''u1'' ''Alice'') = 0" "MAX_AUTH_ATTEMPTS sample_settings = 3"
    by (simp_all add: sample_voter_def sample_settings_def)
  have c: "compare_embeddings sample_lib (BIOMETRIC_ENCRYPTION_KEY sample_settings)
             (method_threshold sample_settings FACE) [-1]
             (stored_template FACE (sample_voter ''u1'' ''Alice'')) = Inr (False, 0)"
    using sample_compare_mismatch
    by (simp add: method_threshold_def stored_template_def sample_voter_def sample_settings_def)
  note t = three_mismatches[OF sel p c c c refl refl refl,
      of 10 "''10.0.0.1''" "''s1''" True 20 "''10.0.0.1''" "''s2''" True 30 "''10.0.0.1''" "''s3''" True]
  have a0: "auth_attempts (sys_db sample_system) = []"
    by (simp add: sample_system_def sample_db_def)
  show ?thesis
    unfolding run_three_authenticate
    using throttle_state_select[OF t(1)] t(2) a0
    by (simp add: sample_voter_def)
qed

text \<open>
  C5, amended: for a voter with failed count 0 and a maximum of 3, three consecutive
  failed matches (of either modality) leave the count at 3 with \<^verbatim>\<open>locked_out\<close> still
  false and the lockout time unchanged. Each of them appends one attempt record with
  outcome failure and its score when the insert into the attempt table succeeds, and none
  when it fails (\<^verbatim>\<open>log_auth_attempt\<close> swallows the error); the count is raised in both
  cases. The transition to locked happens on the next attempt: it is answered 403 before
  any sample is compared, sets \<^verbatim>\<open>locked_out\<close>, records the lockout time, and appends
  a record with outcome lockout and no score, again when the insert succeeds.
\<close>

theorem lock_on_attempt_after_third_failure:
  assumes sel: "select_voter_joined (sys_db s) vid = Some (voter, constit)"
      and nv: "\<not> has_voted voter" and nl: "\<not> locked_out voter"
      and zero: "failed_auth_count voter = 0" and mx: "MAX_AUTH_ATTEMPTS st = 3"
      and c1: "compare_embeddings lib (BIOMETRIC_ENCRYPTION_KEY st) (method_threshold st m1) l1
                 (stored_template m1 voter) = Inr (False, sc1)"
      and c2: "compare_embeddings lib (BIOMETRIC_ENCRYPTION_KEY st) (method_threshold st m2) l2
                 (stored_template m2 voter) = Inr (False, sc2)"
      and c3: "compare_embeddings lib (BIOMETRIC_ENCRYPTION_KEY st) (method_threshold st m3) l3
                 (stored_template m3 voter) = Inr (False, sc3)"
      and s3: "s3 = run lib st s [Authenticate m1 t1 vid (Embedding l1) ip1 sid1 ok1,
                                  Authenticate m2 t2 vid (Embedding l2) ip2 sid2 ok2,
                                  Authenticate m3 t3 vid (Embedding l3) ip3 sid3 ok3]"
      and r4: "r4 = authenticate lib st m4 (sys_db s3) t4 vid sample ip4 sid4 ok4"
  shows "auth_attempts (sys_db s3)
           = auth_attempts (sys_db s) @
             (if ok1 then
                [\<lparr>voter_ref = Some (id_v voter), method_a = m1, outcome_a = FAILURE,
                  failure_reason_a = Some (ReasonNotMatched sc1), similarity_score_a = Some sc1,
                  ip_address_a = ip1, attempted_at = t1\<rparr>]
              else []) @
             (if ok2 then
                [\<lparr>voter_ref = Some (id_v voter), method_a = m2, outcome_a = FAILURE,
                  failure_reason_a = Some (ReasonNotMatched sc2), similarity_score_a = Some sc2,
                  ip_address_a = ip2, attempted_at = t2\<rparr>]
              else []) @
             (if ok3 then
                [\<lparr>voter_ref = Some (id_v voter), method_a = m3, outcome_a = FAILURE,
                  failure_reason_a = Some (ReasonNotMatched sc3), similarity_score_a = Some sc3,
                  ip_address_a = ip3, attempted_at = t3\<rparr>]
              else [])
       \<and> throttle_state (sys_db s3) vid = Some (3, False, lockout_at voter)
       \<and> fst r4 = Inl MaxAttemptsExceeded
       \<and> throttle_state (snd r4) vid = Some (3, True, Some t4)
       \<and> auth_attempts (snd r4) = auth_attempts (sys_db s3) @
            (if ok4 then
               [\<lparr>voter_ref = Some (id_v voter), method_a = m4, outcome_a = LOCKOUT,
                 failure_reason_a = Some ReasonMaxAttempts, similarity_score_a = None,
                 ip_address_a = ip4, attempted_at = t4\<rparr>]
             else [])"
proof -
  have d3: "sys_db s3 = snd (authenticate lib st m3
            (snd (authenticate lib st m2
                    (snd (authenticate lib st m1 (sys_db s) t1 vid (Embedding l1) ip1 sid1 ok1))
                    t2 vid (Embedding l2) ip2 sid2 ok2))
            t3 vid (Embedding l3) ip3 sid3 ok3)"
    unfolding s3 by (rule run_three_authenticate)
  note t = three_mismatches[OF sel nv nl zero mx c1 c2 c3 refl refl d3]
  let ?v3 = "voter\<lparr>failed_auth_count := 3\<rparr>"
  have v3: "voters (sys_db s3) vid = Some ?v3" using t(1) by (simp add: select_voter_joined_Some)
  have p3: "\<not> has_voted ?v3" "\<not> locked_out ?v3" "MAX_AUTH_ATTEMPTS st \<le> failed_auth_count ?v3"
    using nv nl mx by simp_all
  note a4 = authenticate_max_attempts[OF t(1) p3, of lib m4 t4 sample ip4 sid4 ok4, folded r4]
  have ts3: "throttle_state (sys_db s3) vid = Some (3, False, lockout_at voter)"
    using throttle_state_select[OF t(1)] nl by simp
  have r: "fst r4 = Inl MaxAttemptsExceeded" by (simp add: a4)
  have ts4: "throttle_state (snd r4) vid = Some (3, True, Some t4)"
    using v3 by (simp add: a4 throttle_state_def log_auth_attempt_tables update_voter_voters)
  have at4: "auth_attempts (snd r4) = auth_attempts (sys_db s3) @
            (if ok4 then
               [\<lparr>voter_ref = Some (id_v voter), method_a = m4, outcome_a = LOCKOUT,
                 failure_reason_a = Some ReasonMaxAttempts, similarity_score_a = None,
                 ip_address_a = ip4, attempted_at = t4\<rparr>]
             else [])"
    using v3 by (simp add: a4 log_auth_attempt_def update_voter_voters update_voter_tables)
  from t(2) ts3 r ts4 at4 show ?thesis by (intro conjI)
qed

theorem lock_on_attempt_after_third_failure_witness:
  "select_voter_joined (sys_db sample_system) ''V1'' =
     Some (sample_voter ''u1'' ''Alice'', \<lparr>name_k = ''North'', on_chain_id_k = 1\<rparr>)
   \<and> \<not> has_voted (sample_voter ''u1'' ''Alice'') \<and> \<not> locked_out (sample_voter ''u1'' ''Alice'')
   \<and> failed_auth_count (sample_voter ''u1'' ''Alice'') = 0 \<and> MAX_AUTH_ATTEMPTS sample_settings = 3
   \<and> compare_embeddings sample_lib (BIOMETRIC_ENCRYPTION_KEY sample_settings)
             (method_threshold sample_settings FACE) [-1]
             (stored_template FACE (sample_voter ''u1'' ''Alice'')) = Inr (False, 0)
   \<and> map outcome_a (auth_attempts
        (sys_db (run sample_lib sample_settings sample_system
           [Authenticate FACE 10 ''V1'' (Embedding [-1]) ''10.0.0.1'' ''s1'' True,
            Authenticate FACE 20 ''V1'' (Embedding [-1]) ''10.0.0.1'' ''s2'' False,
            Authenticate FACE 30 ''V1'' (Embedding [-1]) ''10.0.0.1'' ''s3'' True])))
        = [FAILURE, FAILURE]
   \<and> throttle_state
        (sys_db (run sample_lib sample_settings sample_system
           [Authenticate FACE 10 ''V1'' (Embedding [-1]) ''10.0.0.1'' ''s1'' True,
            Authenticate FACE 20 ''V1'' (Embedding [-1]) ''10.0.0.1'' ''s2'' False,
            Authenticate FACE 30 ''V1'' (Embedding [-1]) ''10.0.0.1'' ''s3'' True])) ''V1''
        = Some (3, False, None)
   \<and> fst (authenticate sample_lib sample_settings FACE
        (sys_db (run sample_lib sample_settings sample_system
           [Authenticate FACE 10 ''V1'' (Embedding [-1]) ''10.0.0.1'' ''s1'' True,
            Authenticate FACE 20 ''V1'' (Embedding [-1]) ''10.0.0.1'' ''s2'' False,
            Authenticate FACE 30 ''V1'' (Embedding [-1]) ''10.0.0.1'' ''s3'' True]))
        40 ''V1'' (Embedding [1]) ''10.0.0.1'' ''s4'' True) = Inl MaxAttemptsExceeded
   \<and> throttle_state (snd (authenticate sample_lib sample_settings FACE
        (sys_db (run sample_lib sample_settings sample_system
           [Authenticate FACE 10 ''V1'' (Embedding [-1]) ''10.0.0.1'' ''s1'' True,
            Authenticate FACE 20 ''V1'' (Embedding [-1]) ''10.0.0.1'' ''s2'' False,
            Authenticate FACE 30 ''V1'' (Embedding [-1]) ''10.0.0.1'' ''s3'' True]))
        40 ''V1'' (Embedding [1]) ''10.0.0.1'' ''s4'' True)) ''V1'' = Some (3, True, Some 40)
   \<and> map outcome_a (auth_attempts (snd (authenticate sample_lib sample_settings FACE
        (sys_db (run sample_lib sample_settings sample_system
           [Authenticate FACE 10 ''V1'' (Embedding [-1]) ''10.0.0.1'' ''s1'' True,
            Authenticate FACE 20 ''V1'' (Embedding [-1]) ''10.0.0.1'' ''s2'' False,
            Authenticate FACE 30 ''V1'' (Embedding [-1]) ''10.0.0.1'' ''s3'' True]))
        40 ''V1'' (Embedding [1]) ''10.0.0.1'' ''s4'' True)))
        = [FAILURE, FAILURE, LOCKOUT]"
proof -
  have sel: "select_voter_joined (sys_db sample_system) ''V1'' =
     Some (sample_voter ''u1'' ''Alice'', \<lparr>name_k = ''North'', on_chain_id_k = 1\<rparr>)"
    using sample_select_V1 by (simp add: sample_system_def)
  have p: "\<not> has_voted (sample_voter ''u1'' ''Alice'')" "\<not> locked_out (sample_voter ''u1'' ''Alice'')"
    "failed_auth_count (sample_voter ''u1'' ''Alice'') = 0" "MAX_AUTH_ATTEMPTS sample_settings = 3"
    by (simp_all add: sample_voter_def sample_settings_def)
  have c: "compare_embeddings sample_lib (BIOMETRIC_ENCRYPTION_KEY sample_settings)
             (method_threshold sample_settings FACE) [-1]
             (stored_template FACE (sample_voter ''u1'' ''Alice'')) = Inr (False, 0)"
    using sample_compare_mismatch
    by (simp add: method_threshold_def stored_template_def sample_voter_def sample_settings_def)
  have l: "lockout_at (sample_voter ''u1'' ''Alice'') = None" by (simp add: sample_voter_def)
  have a0: "auth_attempts (sys_db sample_system) = []"
    by (simp add: sample_system_def sample_db_def)
  note T = lock_on_attempt_after_third_failure[OF sel p c c c refl refl,
      of 10 "''10.0.0.1''" "''s1''" True 20 "''10.0.0.1''" "''s2''" False
         30 "''10.0.0.1''" "''s3''" True FACE 40 "Embedding [1]" "''10.0.0.1''" "''s4''" True]
  have o3: "map outcome_a (auth_attempts
        (sys_db (run sample_lib sample_settings sample_system
           [Authenticate FACE 10 ''V1'' (Embedding [-1]) ''10.0.0.1'' ''s1'' True,
            Authenticate FACE 20 ''V1'' (Embedding [-1]) ''10.0.0.1'' ''s2'' False,
            Authenticate FACE 30 ''V1'' (Embedding [-1]) ''10.0.0.1'' ''s3'' True])))
        = [FAILURE, FAILURE]"
    unfolding T[THEN conjunct1] a0 by simp
  have o4: "map outcome_a (auth_attempts (snd (authenticate sample_lib sample_settings FACE
        (sys_db (run sample_lib sample_settings sample_system
           [Authenticate FACE 10 ''V1'' (Embedding [-1]) ''10.0.0.1'' ''s1'' True,
            Authenticate FACE 20 ''V1'' (Embedding [-1]) ''10.0.0.1'' ''s2'' False,
            Authenticate FACE 30 ''V1'' (Embedding [-1]) ''10.0.0.1'' ''s3'' True]))
        40 ''V1'' (Embedding [1]) ''10.0.0.1'' ''s4'' True)))
        = [FAILURE, FAILURE, LOCKOUT]"
    unfolding T[THEN conjunct2, THEN conjunct2, THEN conjunct2, THEN conjunct2] map_append o3
    by simp
  from sel p c o3 T[THEN conjunct2, THEN conjunct1, unfolded l]
    T[THEN conjunct2, THEN conjunct2, THEN conjunct1]
    T[THEN conjunct2, THEN conjunct2, THEN conjunct2, THEN conjunct1] o4
  show ?thesis by (intro conjI)
qed

lemma corrupted_select_V1:
  "select_voter_joined corrupted_db ''V1'' =
     Some ((sample_voter ''u1'' ''Alice'')\<lparr>encrypted_face_embedding := []\<rparr>,
           \<lparr>name_k = ''North'', on_chain_id_k = 1\<rparr>)"
  by (simp add: select_voter_joined_def corrupted_db_def update_voter_def sample_db_def sample_voter_def)

lemma sample_decrypt_empty:
  "decrypt_biometric sample_lib key [] = Inl InvalidTag"
  by (simp add: decrypt_biometric_def sample_lib_def)

text \<open>
  C10: \<^verbatim>\<open>compare_embeddings\<close> never raises; when decrypting the stored template fails,
  or the decrypted bytes cannot be reshaped to the live vector's shape, it returns
  \<open>(False, 0.0)\<close>. So for an eligible voter whose stored template cannot be decrypted,
  authentication answers with the ordinary mismatch error, increments the failed count
  and records a failure with score 0.
\<close>

theorem compare_embeddings_never_raises:
  "(\<exists>matched score. compare_embeddings lib key thr live stored = Inr (matched, score))
   \<and> (\<forall>e. decrypt_biometric lib key stored = Inl e \<longrightarrow>
          compare_embeddings lib key thr live stored = Inr (False, 0))
   \<and> (\<forall>bs e. decrypt_biometric lib key stored = Inr bs
            \<and> dequantize_embedding bs (length live) = Inl e \<longrightarrow>
          compare_embeddings lib key thr live stored = Inr (False, 0))
   \<and> (\<forall>e voter constit.
          select_voter_joined d vid = Some (voter, constit)
        \<and> \<not> has_voted voter \<and> \<not> locked_out voter
        \<and> failed_auth_count voter < MAX_AUTH_ATTEMPTS st
        \<and> decrypt_biometric lib (BIOMETRIC_ENCRYPTION_KEY st) (stored_template m voter) = Inl e \<longrightarrow>
          authenticate lib st m d now vid (Embedding sample) ip sid log_ok =
            (Inl (BiometricMismatch (MAX_AUTH_ATTEMPTS st - (failed_auth_count voter + 1))),
             log_auth_attempt
               (update_voter d vid (\<lambda>v. v\<lparr>failed_auth_count := failed_auth_count voter + 1\<rparr>))
               log_ok now vid m FAILURE (Some (ReasonNotMatched 0)) (Some 0) ip))"
proof (intro conjI allI impI)
  show "\<exists>matched score. compare_embeddings lib key thr live stored = Inr (matched, score)"
    by (auto simp: compare_embeddings_cases split: sum.splits)
next
  fix e assume "decrypt_biometric lib key stored = Inl e"
  then show "compare_embeddings lib key thr live stored = Inr (False, 0)"
    by (simp add: compare_embeddings_cases)
next
  fix bs e
  assume "decrypt_biometric lib key stored = Inr bs \<and> dequantize_embedding bs (length live) = Inl e"
  then show "compare_embeddings lib key thr live stored = Inr (False, 0)"
    by (auto simp: compare_embeddings_cases dequantize_embedding_def split: if_splits)
next
  fix e voter constit
  assume h: "select_voter_joined d vid = Some (voter, constit)
        \<and> \<not> has_voted voter \<and> \<not> locked_out voter
        \<and> failed_auth_count voter < MAX_AUTH_ATTEMPTS st
        \<and> decrypt_biometric lib (BIOMETRIC_ENCRYPTION_KEY st) (stored_template m voter) = Inl e"
  then have c: "compare_embeddings lib (BIOMETRIC_ENCRYPTION_KEY st) (method_threshold st m) sample
                  (stored_template m voter) = Inr (False, 0)"
    by (simp add: compare_embeddings_cases)
  from h show "authenticate lib st m d now vid (Embedding sample) ip sid log_ok =
            (Inl (BiometricMismatch (MAX_AUTH_ATTEMPTS st - (failed_auth_count voter + 1))),
             log_auth_attempt
               (update_voter d vid (\<lambda>v. v\<lparr>failed_auth_count := failed_auth_count voter + 1\<rparr>))
               log_ok now vid m FAILURE (Some (ReasonNotMatched 0)) (Some 0) ip)"
    using authenticate_mismatch[OF _ _ _ _ c] by blast
qed

theorem compare_embeddings_never_raises_witness:
  "select_voter_joined corrupted_db ''V1'' =
     Some ((sample_voter ''u1'' ''Alice'')\<lparr>encrypted_face_embedding := []\<rparr>,
           \<lparr>name_k = ''North'', on_chain_id_k = 1\<rparr>)
   \<and> decrypt_biometric sample_lib (BIOMETRIC_ENCRYPTION_KEY sample_settings)
        (stored_template FACE ((sample_voter ''u1'' ''Alice'')\<lparr>encrypted_face_embedding := []\<rparr>))
        = Inl InvalidTag
   \<and> compare_embeddings sample_lib (BIOMETRIC_ENCRYPTION_KEY sample_settings) (68 / 100) [1] []
        = Inr (False, 0)
   \<and> fst (authenticate sample_lib sample_settings FACE corrupted_db 10 ''V1'' (Embedding [1])
             ''10.0.0.1'' ''s1'' True) = Inl (BiometricMismatch 2)
   \<and> throttle_state (snd (authenticate sample_lib sample_settings FACE corrupted_db 10 ''V1''
             (Embedding [1]) ''10.0.0.1'' ''s1'' True)) ''V1'' = Some (1, False, None)"
proof -
  let ?v = "(sample_voter ''u1'' ''Alice'')\<lparr>encrypted_face_embedding := []\<rparr>"
  have dec: "decrypt_biometric sample_lib (BIOMETRIC_ENCRYPTION_KEY sample_settings)
        (stored_template FACE ?v) = Inl InvalidTag"
    by (simp add: stored_template_def sample_decrypt_empty)
  have p: "\<not> has_voted ?v" "\<not> locked_out ?v" "failed_auth_count ?v < MAX_AUTH_ATTEMPTS sample_settings"
    by (simp_all add: sample_voter_def sample_settings_def)
  have v: "voters corrupted_db ''V1'' = Some ?v"
    using corrupted_select_V1 by (simp add: select_voter_joined_Some)
  note t = compare_embeddings_never_raises[of sample_lib "BIOMETRIC_ENCRYPTION_KEY sample_settings"
      "68 / 100" "[1]" "[]" corrupted_db "''V1''" sample_settings FACE 10 "[1]" "''10.0.0.1''" "''s1''" True]
  from t have a: "authenticate sample_lib sample_settings FACE corrupted_db 10 ''V1'' (Embedding [1])
             ''10.0.0.1'' ''s1'' True =
            (Inl (BiometricMismatch (MAX_AUTH_ATTEMPTS sample_settings - (failed_auth_count ?v + 1))),
             log_auth_attempt
               (update_voter corrupted_db ''V1'' (\<lambda>v. v\<lparr>failed_auth_count := failed_auth_count ?v + 1\<rparr>))
               True 10 ''V1'' FACE FAILURE (Some (ReasonNotMatched 0)) (Some 0) ''10.0.0.1'')"
    using corrupted_select_V1 p dec by blast
  from t have c: "compare_embeddings sample_lib (BIOMETRIC_ENCRYPTION_KEY sample_settings) (68 / 100) [1] []
        = Inr (False, 0)"
    using sample_decrypt_empty by blast
  have r: "fst (authenticate sample_lib sample_settings FACE corrupted_db 10 ''V1'' (Embedding [1])
             ''10.0.0.1'' ''s1'' True) = Inl (BiometricMismatch 2)"
    unfolding a by (simp add: sample_voter_def sample_settings_def)
  have ts: "throttle_state (snd (authenticate sample_lib sample_settings FACE corrupted_db 10 ''V1''
             (Embedding [1]) ''10.0.0.1'' ''s1'' True)) ''V1'' = Some (1, False, None)"
    unfolding a using v
    by (simp add: throttle_state_def log_auth_attempt_tables update_voter_voters sample_voter_def)
  show ?thesis
    using corrupted_select_V1 dec c r ts by (simp only:)
qed

subsection \<open>Validation of voting session tokens\<close>

lemma get_current_session_cases:
  "get_current_session st d now tok =
     (if \<not> token_accepted st now tok then Inl InvalidVotingSession
      else case voters d (the (claim_voter_id tok)) of
             None \<Rightarrow> Inl SessionVoterNotFound
           | Some v \<Rightarrow> if has_voted v then Inl SessionAlreadyVoted
                       else if locked_out v then Inl SessionLockedOut
                       else Inr (token_session tok))"
  by (auto simp: get_current_session_def jwt_decode_def token_accepted_def token_session_def Let_def
      split: option.splits sum.splits)

text \<open>
  C6: \<^verbatim>\<open>get_current_session\<close> returns the session data only if the token is signed
  with the voting-session secret (so a token signed with a different admin secret is
  rejected), is not expired, has type \<^verbatim>\<open>voting_session\<close>, and the voter found by the
  external id has neither voted nor is locked out. A bad signature, an expired token and
  a wrong type are all answered 401 "Invalid voting session"; then a missing voter 404,
  a voter who has voted 409, a locked-out voter 403, in that order.
\<close>

theorem get_current_session_validation:
  "(\<forall>sd. get_current_session st d now tok = Inr sd \<longrightarrow>
        signed_with tok = VOTING_SESSION_SECRET st
      \<and> (\<forall>expiry. claim_exp tok = Some expiry \<longrightarrow> now \<le> expiry)
      \<and> claim_type tok = Some ''voting_session''
      \<and> claim_voter_id tok = Some (sd_voter_id sd)
      \<and> claim_election_id tok = Some (sd_election_id sd)
      \<and> claim_constituency_id tok = Some (sd_constituency_id sd)
      \<and> claim_session_id tok = Some (sd_session_id sd)
      \<and> (\<exists>v. voters d (sd_voter_id sd) = Some v \<and> \<not> has_voted v \<and> \<not> locked_out v))
   \<and> (signed_with tok \<noteq> VOTING_SESSION_SECRET st \<longrightarrow>
        get_current_session st d now tok = Inl InvalidVotingSession)
   \<and> (signed_with tok = JWT_SECRET st \<and> JWT_SECRET st \<noteq> VOTING_SESSION_SECRET st \<longrightarrow>
        get_current_session st d now tok = Inl InvalidVotingSession)
   \<and> ((\<exists>expiry. claim_exp tok = Some expiry \<and> expiry < now) \<longrightarrow>
        get_current_session st d now tok = Inl InvalidVotingSession)
   \<and> (claim_type tok \<noteq> Some ''voting_session'' \<longrightarrow>
        get_current_session st d now tok = Inl InvalidVotingSession)
   \<and> (token_accepted st now tok \<and> voters d (the (claim_voter_id tok)) = None \<longrightarrow>
        get_current_session st d now tok = Inl SessionVoterNotFound)
   \<and> (\<forall>v. token_accepted st now tok \<and> voters d (the (claim_voter_id tok)) = Some v \<and> has_voted v \<longrightarrow>
        get_current_session st d now tok = Inl SessionAlreadyVoted)
   \<and> (\<forall>v. token_accepted st now tok \<and> voters d (the (claim_voter_id tok)) = Some v
          \<and> \<not> has_voted v \<and> locked_out v \<longrightarrow>
        get_current_session st d now tok = Inl SessionLockedOut)
   \<and> (\<forall>v. token_accepted st now tok \<and> voters d (the (claim_voter_id tok)) = Some v
          \<and> \<not> has_voted v \<and> \<not> locked_out v \<longrightarrow>
        get_current_session st d now tok = Inr (token_session tok))"
proof -
  have succ: "\<forall>sd. get_current_session st d now tok = Inr sd \<longrightarrow>
        signed_with tok = VOTING_SESSION_SECRET st
      \<and> (\<forall>expiry. claim_exp tok = Some expiry \<longrightarrow> now \<le> expiry)
      \<and> claim_type tok = Some ''voting_session''
      \<and> claim_voter_id tok = Some (sd_voter_id sd)
      \<and> claim_election_id tok = Some (sd_election_id sd)
      \<and> claim_constituency_id tok = Some (sd_constituency_id sd)
      \<and> claim_session_id tok = Some (sd_session_id sd)
      \<and> (\<exists>v. voters d (sd_voter_id sd) = Some v \<and> \<not> has_voted v \<and> \<not> locked_out v)"
  proof (intro allI impI)
    fix sd assume r: "get_current_session st d now tok = Inr sd"
    then have acc: "token_accepted st now tok"
      by (simp add: get_current_session_cases split: if_splits)
    from r acc obtain v where v: "voters d (the (claim_voter_id tok)) = Some v"
        "\<not> has_voted v" "\<not> locked_out v" and sd: "sd = token_session tok"
      by (auto simp: get_current_session_cases split: option.splits if_splits)
    from acc have cl: "claim_voter_id tok = Some (the (claim_voter_id tok))"
        "claim_election_id tok = Some (the (claim_election_id tok))"
        "claim_constituency_id tok = Some (the (claim_constituency_id tok))"
        "claim_session_id tok = Some (the (claim_session_id tok))"
      by (auto simp: token_accepted_def truthy_def split: option.splits)
    from acc have e: "\<forall>expiry. claim_exp tok = Some expiry \<longrightarrow> now \<le> expiry"
      by (auto simp: token_accepted_def)
    show "signed_with tok = VOTING_SESSION_SECRET st
      \<and> (\<forall>expiry. claim_exp tok = Some expiry \<longrightarrow> now \<le> expiry)
      \<and> claim_type tok = Some ''voting_session''
      \<and> claim_voter_id tok = Some (sd_voter_id sd)
      \<and> claim_election_id tok = Some (sd_election_id sd)
      \<and> claim_constituency_id tok = Some (sd_constituency_id sd)
      \<and> claim_session_id tok = Some (sd_session_id sd)
      \<and> (\<exists>v. voters d (sd_voter_id sd) = Some v \<and> \<not> has_voted v \<and> \<not> locked_out v)"
      using acc v cl e unfolding sd
      by (simp add: token_session_def token_accepted_def)
  qed
  have rej: "\<not> token_accepted st now tok \<Longrightarrow> get_current_session st d now tok = Inl InvalidVotingSession"
    by (simp add: get_current_session_cases)
  have r1: "signed_with tok \<noteq> VOTING_SESSION_SECRET st \<longrightarrow>
        get_current_session st d now tok = Inl InvalidVotingSession"
  proof
    assume "signed_with tok \<noteq> VOTING_SESSION_SECRET st"
    then have "\<not> token_accepted st now tok" by (simp add: token_accepted_def)
    then show "get_current_session st d now tok = Inl InvalidVotingSession" by (rule rej)
  qed
  have r2: "signed_with tok = JWT_SECRET st \<and> JWT_SECRET st \<noteq> VOTING_SESSION_SECRET st \<longrightarrow>
        get_current_session st d now tok = Inl InvalidVotingSession"
    using r1 by simp
  have r3: "(\<exists>expiry. claim_exp tok = Some expiry \<and> expiry < now) \<longrightarrow>
        get_current_session st d now tok = Inl InvalidVotingSession"
  proof
    assume "\<exists>expiry. claim_exp tok = Some expiry \<and> expiry < now"
    then obtain expiry where "claim_exp tok = Some expiry" "expiry < now" by blast
    then have "\<not> token_accepted st now tok" by (simp add: token_accepted_def)
    then show "get_current_session st d now tok = Inl InvalidVotingSession" by (rule rej)
  qed
  have r4: "claim_type tok \<noteq> Some ''voting_session'' \<longrightarrow>
        get_current_session st d now tok = Inl InvalidVotingSession"
  proof
    assume "claim_type tok \<noteq> Some ''voting_session''"
    then have "\<not> token_accepted st now tok" by (simp only: token_accepted_def) blast
    then show "get_current_session st d now tok = Inl InvalidVotingSession" by (rule rej)
  qed
  have r5: "token_accepted st now tok \<and> voters d (the (claim_voter_id tok)) = None \<longrightarrow>
        get_current_session st d now tok = Inl SessionVoterNotFound"
    by (simp add: get_current_session_cases)
  have r6: "\<forall>v. token_accepted st now tok \<and> voters d (the (claim_voter_id tok)) = Some v \<and> has_voted v \<longrightarrow>
        get_current_session st d now tok = Inl SessionAlreadyVoted"
    by (simp add: get_current_session_cases)
  have r7: "\<forall>v. token_accepted st now tok \<and> voters d (the (claim_voter_id tok)) = Some v
          \<and> \<not> has_voted v \<and> locked_out v \<longrightarrow>
        get_current_session st d now tok = Inl SessionLockedOut"
    by (simp add: get_current_session_cases)
  have r8: "\<forall>v. token_accepted st now tok \<and> voters d (the (claim_voter_id tok)) = Some v
          \<and> \<not> has_voted v \<and> \<not> locked_out v \<longrightarrow>
        get_current_session st d now tok = Inr (token_session tok)"
    by (simp add: get_current_session_cases)
  from succ r1 r2 r3 r4 r5 r6 r7 r8 show ?thesis by (intro conjI)
qed


theorem get_current_session_validation_witness:
  "token_accepted sample_settings 100 (create_voting_session_token sample_settings 0 ''V1'' ''e1'' ''k1'' ''s1'')
   \<and> voters sample_db ''V1'' = Some (sample_voter ''u1'' ''Alice'')
   \<and> \<not> has_voted (sample_voter ''u1'' ''Alice'') \<and> \<not> locked_out (sample_voter ''u1'' ''Alice'')
   \<and> get_current_session sample_settings sample_db 100
        (create_voting_session_token sample_settings 0 ''V1'' ''e1'' ''k1'' ''s1'')
       = Inr (sample_session ''V1'' ''s1'')
   \<and> JWT_SECRET sample_settings \<noteq> VOTING_SESSION_SECRET sample_settings
   \<and> get_current_session sample_settings sample_db 100
        ((create_voting_session_token sample_settings 0 ''V1'' ''e1'' ''k1'' ''s1'')
           \<lparr>signed_with := JWT_SECRET sample_settings\<rparr>)
       = Inl InvalidVotingSession
   \<and> get_current_session sample_settings sample_db 301
        (create_voting_session_token sample_settings 0 ''V1'' ''e1'' ''k1'' ''s1'')
       = Inl InvalidVotingSession
   \<and> get_current_session sample_settings locked_db 100
        (create_voting_session_token sample_settings 0 ''V1'' ''e1'' ''k1'' ''s1'')
       = Inl SessionLockedOut"
proof -
  let ?tok = "create_voting_session_token sample_settings 0 ''V1'' ''e1'' ''k1'' ''s1''"
  have acc: "token_accepted sample_settings 100 ?tok"
    by (simp add: token_accepted_def create_voting_session_token_def truthy_def)
  have vid: "the (claim_voter_id ?tok) = ''V1''" by (simp add: create_voting_session_token_def)
  have v: "voters sample_db ''V1'' = Some (sample_voter ''u1'' ''Alice'')" by (simp add: sample_db_def)
  have nv: "\<not> has_voted (sample_voter ''u1'' ''Alice'')" "\<not> locked_out (sample_voter ''u1'' ''Alice'')"
    by (simp_all add: sample_voter_def)
  have ts: "token_session ?tok = sample_session ''V1'' ''s1''"
    by (simp add: token_session_def sample_session_def create_voting_session_token_def)
  have sec: "JWT_SECRET sample_settings \<noteq> VOTING_SESSION_SECRET sample_settings"
    by (simp add: sample_settings_def)
  have lv: "voters locked_db ''V1'' =
      Some ((sample_voter ''u1'' ''Alice'')\<lparr>failed_auth_count := 3, locked_out := True, lockout_at := Some 0\<rparr>)"
    using locked_select_V1 by (simp add: select_voter_joined_Some)
  note T1 = get_current_session_validation[of sample_settings sample_db 100 ?tok]
  note c9 = T1[THEN conjunct2, THEN conjunct2, THEN conjunct2, THEN conjunct2, THEN conjunct2,
               THEN conjunct2, THEN conjunct2, THEN conjunct2]
  have g1: "get_current_session sample_settings sample_db 100 ?tok = Inr (sample_session ''V1'' ''s1'')"
    using c9[rule_format, of "sample_voter ''u1'' ''Alice''"] acc v nv
    by (simp only: vid ts simp_thms)
  note T2 = get_current_session_validation[of sample_settings sample_db 100
        "?tok\<lparr>signed_with := JWT_SECRET sample_settings\<rparr>"]
  note c3 = T2[THEN conjunct2, THEN conjunct2, THEN conjunct1]
  have sw: "signed_with (?tok\<lparr>signed_with := JWT_SECRET sample_settings\<rparr>) = JWT_SECRET sample_settings"
    by simp
  have g2: "get_current_session sample_settings sample_db 100 (?tok\<lparr>signed_with := JWT_SECRET sample_settings\<rparr>)
       = Inl InvalidVotingSession"
    using c3 sw sec by (simp only: simp_thms)
  note T3 = get_current_session_validation[of sample_settings sample_db 301 ?tok]
  note c4 = T3[THEN conjunct2, THEN conjunct2, THEN conjunct2, THEN conjunct1]
  have ex: "\<exists>expiry. claim_exp ?tok = Some expiry \<and> expiry < 301"
    by (simp add: create_voting_session_token_def)
  have g3: "get_current_session sample_settings sample_db 301 ?tok = Inl InvalidVotingSession"
    using c4 ex by (simp only: simp_thms)
  note T4 = get_current_session_validation[of sample_settings locked_db 100 ?tok]
  note c8 = T4[THEN conjunct2, THEN conjunct2, THEN conjunct2, THEN conjunct2, THEN conjunct2,
               THEN conjunct2, THEN conjunct2, THEN conjunct1]
  let ?lv = "(sample_voter ''u1'' ''Alice'')\<lparr>failed_auth_count := 3, locked_out := True, lockout_at := Some 0\<rparr>"
  have lp: "\<not> has_voted ?lv" "locked_out ?lv" by (simp_all add: sample_voter_def)
  have g4: "get_current_session sample_settings locked_db 100 ?tok = Inl SessionLockedOut"
    using c8[rule_format, of ?lv] acc lv lp
    by (simp only: vid simp_thms)
  show ?thesis using acc v nv g1 sec g2 g3 g4 by (intro conjI)
qed

subsection \<open>Vote commitment\<close>

lemma commit_vote_Some:
  assumes "commit_vote d ok now voter sd tx bn gu = Some d'"
  shows "d' = (update_voter
                (d\<lparr>vote_submissions := vote_submissions d @
                      [\<lparr>voter_id_s = id_v voter, election_id_s = sd_election_id sd,
                        session_id_s = sd_session_id sd, tx_hash_s = tx, block_number_s = bn,
                        gas_used_s = gu, submitted_at = now\<rparr>]\<rparr>)
                (sd_voter_id sd)
                (\<lambda>v. v\<lparr>has_voted := True, voted_at := Some now, vote_tx_hash := Some tx\<rparr>))
              \<lparr>blockchain_txns := blockchain_txns d @
                  [\<lparr>election_id_t = sd_election_id sd, tx_hash_t = tx, block_number_t = bn,
                    gas_used_t = gu\<rparr>]\<rparr>"
  using assms
  by (simp add: commit_vote_def Let_def update_voter_tables split: if_splits)

lemma commit_vote_tables:
  assumes "commit_vote d ok now voter sd tx bn gu = Some d'"
  shows "vote_submissions d' = vote_submissions d @
            [\<lparr>voter_id_s = id_v voter, election_id_s = sd_election_id sd,
              session_id_s = sd_session_id sd, tx_hash_s = tx, block_number_s = bn,
              gas_used_s = gu, submitted_at = now\<rparr>]"
    and "voters d' vid =
           (if vid = sd_voter_id sd
            then map_option (\<lambda>v. v\<lparr>has_voted := True, voted_at := Some now, vote_tx_hash := Some tx\<rparr>)
                   (voters d vid)
            else voters d vid)"
  unfolding commit_vote_Some[OF assms]
  by (simp_all add: update_voter_tables update_voter_voters)

lemma cast_vote_Inl_ledger:
  "\<exists>e. cast_vote d used now sd cid (Inl msg) ok = (Inl e, d, used)"
  by (simp add: cast_vote_def split: option.splits)

lemma cast_vote_result:
  assumes "cast_vote d used now sd cid br ok = (res, d', used')"
  shows "(\<exists>e. res = Inl e \<and> d' = d \<and> used' = used)
       \<or> (\<exists>voter h bn gu.
             used (sd_session_id sd) = None
           \<and> voters d (sd_voter_id sd) = Some voter \<and> \<not> has_voted voter \<and> \<not> locked_out voter
           \<and> br = Inr (h, bn, gu)
           \<and> commit_vote d ok now voter sd (if take 2 h = ''0x'' then h else ''0x'' @ h) bn gu = Some d'
           \<and> res = Inr \<lparr>tx_hash_r = (if take 2 h = ''0x'' then h else ''0x'' @ h),
                        block_number_r = bn, timestamp_r = now\<rparr>
           \<and> used' = clean_expired_tokens (used(sd_session_id sd \<mapsto> now + 10 * 60)) now)"
proof (cases "used (sd_session_id sd)")
  case (Some a)
  with assms show ?thesis by (auto simp: cast_vote_def)
next
  case None
  show ?thesis
  proof (cases "voters d (sd_voter_id sd)")
    case N: None
    with None assms show ?thesis by (auto simp: cast_vote_def)
  next
    case (Some voter)
    show ?thesis
    proof (cases "has_voted voter \<or> locked_out voter")
      case True
      with None Some assms show ?thesis by (auto simp: cast_vote_def split: if_splits)
    next
      case False
      show ?thesis
      proof (cases br)
        case (Inl msg)
        from cast_vote_Inl_ledger[of d used now sd cid msg ok] assms Inl
        show ?thesis by auto
      next
        case (Inr t)
        obtain h bn gu where t: "t = (h, bn, gu)" by (cases t) auto
        from assms None Some False Inr t show ?thesis
          by (simp add: cast_vote_def Let_def split: option.splits if_splits) auto
      qed
    qed
  qed
qed

text \<open>
  C3: when the ledger submission raises, \<^verbatim>\<open>cast_vote\<close> answers 503 with the ledger's
  message and changes nothing: the database (so \<^verbatim>\<open>has_voted\<close>, \<^verbatim>\<open>voted_at\<close> and the
  vote submissions) and the replay store are as before. The first part holds for every
  call; the second names the checks that must pass for the ledger to be reached.
\<close>

theorem ledger_failure_leaves_state_unchanged:
  "(\<exists>e. cast_vote d used now sd cid (Inl msg) ok = (Inl e, d, used))
   \<and> (\<forall>voter cand constit.
          used (sd_session_id sd) = None
        \<and> voters d (sd_voter_id sd) = Some voter \<and> \<not> has_voted voter \<and> \<not> locked_out voter
        \<and> select_candidate d cid (sd_election_id sd) = Some cand \<and> is_active cand
        \<and> constituency_id_c cand = sd_constituency_id sd
        \<and> constituencies d (sd_constituency_id sd) = Some constit \<longrightarrow>
          cast_vote d used now sd cid (Inl msg) ok = (Inl (BlockchainUnavailable msg), d, used)
        \<and> status_code (BlockchainUnavailable msg) = 503
        \<and> voters (fst (snd (cast_vote d used now sd cid (Inl msg) ok))) (sd_voter_id sd) = Some voter
        \<and> vote_submissions (fst (snd (cast_vote d used now sd cid (Inl msg) ok))) = vote_submissions d)"
proof (intro conjI allI impI)
  show "\<exists>e. cast_vote d used now sd cid (Inl msg) ok = (Inl e, d, used)"
    by (rule cast_vote_Inl_ledger)
next
  fix voter cand constit
  assume h: "used (sd_session_id sd) = None
        \<and> voters d (sd_voter_id sd) = Some voter \<and> \<not> has_voted voter \<and> \<not> locked_out voter
        \<and> select_candidate d cid (sd_election_id sd) = Some cand \<and> is_active cand
        \<and> constituency_id_c cand = sd_constituency_id sd
        \<and> constituencies d (sd_constituency_id sd) = Some constit"
  then have c: "cast_vote d used now sd cid (Inl msg) ok = (Inl (BlockchainUnavailable msg), d, used)"
    by (simp add: cast_vote_def)
  show "cast_vote d used now sd cid (Inl msg) ok = (Inl (BlockchainUnavailable msg), d, used)"
    by (rule c)
  show "status_code (BlockchainUnavailable msg) = 503" by simp
  show "voters (fst (snd (cast_vote d used now sd cid (Inl msg) ok))) (sd_voter_id sd) = Some voter"
    using h by (simp add: c)
  show "vote_submissions (fst (snd (cast_vote d used now sd cid (Inl msg) ok))) = vote_submissions d"
    by (simp add: c)
qed

lemma sample_cast_prechecks:
  "voters sample_db ''V1'' = Some (sample_voter ''u1'' ''Alice'')"
  "voters sample_db ''V2'' = Some (sample_voter ''u2'' ''Bob'')"
  "select_candidate sample_db ''c1'' ''e1'' =
     Some \<lparr>election_id_c = ''e1'', constituency_id_c = ''k1'', on_chain_id_c = 1, is_active = True\<rparr>"
  "constituencies sample_db ''k1'' = Some \<lparr>name_k = ''North'', on_chain_id_k = 1\<rparr>"
  by (simp_all add: sample_db_def select_candidate_def)

theorem ledger_failure_leaves_state_unchanged_witness:
  "Map.empty (sd_session_id (sample_session ''V1'' ''s1'')) = (None :: int option)
   \<and> voters sample_db (sd_voter_id (sample_session ''V1'' ''s1'')) = Some (sample_voter ''u1'' ''Alice'')
   \<and> \<not> has_voted (sample_voter ''u1'' ''Alice'') \<and> \<not> locked_out (sample_voter ''u1'' ''Alice'')
   \<and> select_candidate sample_db ''c1'' (sd_election_id (sample_session ''V1'' ''s1'')) =
        Some \<lparr>election_id_c = ''e1'', constituency_id_c = ''k1'', on_chain_id_c = 1, is_active = True\<rparr>
   \<and> constituencies sample_db (sd_constituency_id (sample_session ''V1'' ''s1'')) =
        Some \<lparr>name_k = ''North'', on_chain_id_k = 1\<rparr>
   \<and> cast_vote sample_db Map.empty 50 (sample_session ''V1'' ''s1'') ''c1'' (Inl ''node down'') True
        = (Inl (BlockchainUnavailable ''node down''), sample_db, Map.empty)"
proof -
  have p: "Map.empty (sd_session_id (sample_session ''V1'' ''s1'')) = (None :: int option)"
    "voters sample_db (sd_voter_id (sample_session ''V1'' ''s1'')) = Some (sample_voter ''u1'' ''Alice'')"
    "\<not> has_voted (sample_voter ''u1'' ''Alice'')" "\<not> locked_out (sample_voter ''u1'' ''Alice'')"
    "select_candidate sample_db ''c1'' (sd_election_id (sample_session ''V1'' ''s1'')) =
        Some \<lparr>election_id_c = ''e1'', constituency_id_c = ''k1'', on_chain_id_c = 1, is_active = True\<rparr>"
    "is_active \<lparr>election_id_c = ''e1'', constituency_id_c = ''k1'', on_chain_id_c = 1, is_active = True\<rparr>"
    "constituency_id_c \<lparr>election_id_c = ''e1'', constituency_id_c = ''k1'', on_chain_id_c = 1, is_active = True\<rparr>
       = sd_constituency_id (sample_session ''V1'' ''s1'')"
    "constituencies sample_db (sd_constituency_id (sample_session ''V1'' ''s1'')) =
        Some \<lparr>name_k = ''North'', on_chain_id_k = 1\<rparr>"
    by (simp_all add: sample_session_def sample_cast_prechecks sample_voter_def)
  note T = ledger_failure_leaves_state_unchanged[of sample_db Map.empty 50 "sample_session ''V1'' ''s1''"
      "''c1''" "''node down''" True, THEN conjunct2, rule_format,
      of "sample_voter ''u1'' ''Alice''"
         "\<lparr>election_id_c = ''e1'', constituency_id_c = ''k1'', on_chain_id_c = 1, is_active = True\<rparr>"
         "\<lparr>name_k = ''North'', on_chain_id_k = 1\<rparr>"]
  have "cast_vote sample_db Map.empty 50 (sample_session ''V1'' ''s1'') ''c1'' (Inl ''node down'') True
        = (Inl (BlockchainUnavailable ''node down''), sample_db, Map.empty)"
    using T p by blast
  with p show ?thesis by (intro conjI)
qed

subsection \<open>Exactly one vote submission per voter\<close>

lemma same_votes_refl: "same_votes d d"
  by (simp add: same_votes_def option.rel_refl)

lemma same_votes_log:
  "same_votes d d1 \<Longrightarrow> same_votes d (log_auth_attempt d1 ok now vid m oc r s ip)"
  by (simp add: same_votes_def log_auth_attempt_tables)

lemma same_votes_update:
  assumes "same_votes d d1" and "\<And>v. id_v (f v) = id_v v \<and> has_voted (f v) = has_voted v"
  shows "same_votes d (update_voter d1 vid f)"
  unfolding same_votes_def
proof (intro conjI allI)
  show "vote_submissions (update_voter d1 vid f) = vote_submissions d"
    using assms(1) by (simp add: same_votes_def update_voter_tables)
  fix x
  have r: "rel_option (\<lambda>v v'. id_v v = id_v v' \<and> has_voted v = has_voted v') (voters d x) (voters d1 x)"
    using assms(1) by (simp add: same_votes_def)
  show "rel_option (\<lambda>v v'. id_v v = id_v v' \<and> has_voted v = has_voted v')
          (voters d x) (voters (update_voter d1 vid f) x)"
  proof (cases "x = vid")
    case False then show ?thesis using r by (simp add: update_voter_voters)
  next
    case True
    show ?thesis using r assms(2) unfolding True
      by (cases "voters d vid"; cases "voters d1 vid") (simp_all add: update_voter_voters)
  qed
qed

lemma authenticate_same_votes:
  "same_votes d (snd (authenticate lib st m d now vid sample ip sid ok))"
  unfolding authenticate_def Let_def
  by (auto split: option.splits sample_result.splits sum.splits prod.splits
      intro!: same_votes_log same_votes_update same_votes_refl)

lemma same_votes_submissions:
  assumes "same_votes d d'" "voters d vid = Some v" "voters d' vid = Some v'"
  shows "submissions_of d' v' = submissions_of d v" "has_voted v' = has_voted v" "id_v v' = id_v v"
proof -
  have "rel_option (\<lambda>v v'. id_v v = id_v v' \<and> has_voted v = has_voted v') (voters d vid) (voters d' vid)"
    using assms(1) by (simp add: same_votes_def)
  with assms(2,3) have e: "id_v v = id_v v'" "has_voted v = has_voted v'" by simp_all
  show "has_voted v' = has_voted v" "id_v v' = id_v v" using e by simp_all
  show "submissions_of d' v' = submissions_of d v"
    using assms(1) e by (simp add: submissions_of_def same_votes_def)
qed

lemma same_votes_dom:
  assumes "same_votes d d'" "voters d' vid = Some v'"
  obtains v where "voters d vid = Some v"
proof -
  have "rel_option (\<lambda>v v'. id_v v = id_v v' \<and> has_voted v = has_voted v') (voters d vid) (voters d' vid)"
    using assms(1) by (simp add: same_votes_def)
  with assms(2) show ?thesis using that by (cases "voters d vid") simp_all
qed

lemma same_votes_voted_once:
  assumes "same_votes d d'" "voted_once d"
  shows "voted_once d'"
  unfolding voted_once_def
proof (intro allI impI)
  fix vid v' assume v': "voters d' vid = Some v'"
  from same_votes_dom[OF assms(1) v'] obtain v where v: "voters d vid = Some v" .
  note e = same_votes_submissions[OF assms(1) v v']
  from assms(2) v have "(has_voted v \<longrightarrow> length (submissions_of d v) = 1)
      \<and> (\<not> has_voted v \<longrightarrow> submissions_of d v = [])"
    unfolding voted_once_def by blast
  then show "(has_voted v' \<longrightarrow> length (submissions_of d' v') = 1)
      \<and> (\<not> has_voted v' \<longrightarrow> submissions_of d' v' = [])"
    by (simp add: e)
qed

lemma same_votes_pk_unique:
  assumes "same_votes d d'" "pk_unique d"
  shows "pk_unique d'"
  unfolding pk_unique_def
proof (intro allI impI)
  fix vid vid' v v'
  assume h: "voters d' vid = Some v \<and> voters d' vid' = Some v' \<and> id_v v = id_v v'"
  from same_votes_dom[OF assms(1)] h obtain u where u: "voters d vid = Some u" by blast
  from same_votes_dom[OF assms(1)] h obtain u' where u': "voters d vid' = Some u'" by blast
  from same_votes_submissions(3)[OF assms(1) u] h have "id_v v = id_v u" by blast
  moreover from same_votes_submissions(3)[OF assms(1) u'] h have "id_v v' = id_v u'" by blast
  ultimately have "id_v u = id_v u'" using h by simp
  with assms(2) u u' show "vid = vid'" unfolding pk_unique_def by blast
qed

lemma commit_vote_pk_unique:
  assumes pk: "pk_unique d" and c: "commit_vote d ok now voter sd tx bn gu = Some d'"
  shows "pk_unique d'"
  unfolding pk_unique_def
proof (intro allI impI)
  fix vid vid' v v'
  assume h: "voters d' vid = Some v \<and> voters d' vid' = Some v' \<and> id_v v = id_v v'"
  have ex: "\<And>x w. voters d' x = Some w \<Longrightarrow> \<exists>u. voters d x = Some u \<and> id_v u = id_v w"
    by (auto simp: commit_vote_tables(2)[OF c] split: if_splits)
  from ex h obtain u where u: "voters d vid = Some u" "id_v u = id_v v" by blast
  from ex h obtain u' where u': "voters d vid' = Some u'" "id_v u' = id_v v'" by blast
  from u u' h have "id_v u = id_v u'" by simp
  with pk u u' show "vid = vid'" unfolding pk_unique_def by blast
qed

lemma commit_vote_voted_once:
  assumes vo: "voted_once d" and pk: "pk_unique d"
      and voter: "voters d (sd_voter_id sd) = Some voter" and nv: "\<not> has_voted voter"
      and c: "commit_vote d ok now voter sd tx bn gu = Some d'"
  shows "voted_once d'"
  unfolding voted_once_def
proof (intro allI impI)
  fix vid v' assume v': "voters d' vid = Some v'"
  let ?row = "\<lparr>voter_id_s = id_v voter, election_id_s = sd_election_id sd,
              session_id_s = sd_session_id sd, tx_hash_s = tx, block_number_s = bn,
              gas_used_s = gu, submitted_at = now\<rparr>"
  have subs: "vote_submissions d' = vote_submissions d @ [?row]" by (rule commit_vote_tables(1)[OF c])
  show "(has_voted v' \<longrightarrow> length (submissions_of d' v') = 1)
      \<and> (\<not> has_voted v' \<longrightarrow> submissions_of d' v' = [])"
  proof (cases "vid = sd_voter_id sd")
    case True
    with v' voter have e: "v' = voter\<lparr>has_voted := True, voted_at := Some now, vote_tx_hash := Some tx\<rparr>"
      by (simp add: commit_vote_tables(2)[OF c])
    from vo voter nv have "submissions_of d voter = []" unfolding voted_once_def by blast
    then have "submissions_of d' v' = [?row]"
      by (simp add: e submissions_of_def subs)
    then show ?thesis by (simp add: e)
  next
    case False
    with v' have v: "voters d vid = Some v'" by (simp add: commit_vote_tables(2)[OF c])
    have "id_v v' \<noteq> id_v voter"
    proof
      assume "id_v v' = id_v voter"
      with pk v voter have "vid = sd_voter_id sd" unfolding pk_unique_def by blast
      with False show False by simp
    qed
    then have "submissions_of d' v' = submissions_of d v'"
      by (auto simp: submissions_of_def subs)
    moreover from vo v have "(has_voted v' \<longrightarrow> length (submissions_of d v') = 1)
      \<and> (\<not> has_voted v' \<longrightarrow> submissions_of d v' = [])" unfolding voted_once_def by blast
    ultimately show ?thesis by simp
  qed
qed

lemma cast_vote_invariant:
  assumes "voted_once d" "pk_unique d" "cast_vote d used now sd cid br ok = (res, d', used')"
  shows "voted_once d' \<and> pk_unique d'"
  using cast_vote_result[OF assms(3)]
proof
  assume "\<exists>e. res = Inl e \<and> d' = d \<and> used' = used"
  with assms show ?thesis by auto
next
  assume "\<exists>voter h bn gu.
             used (sd_session_id sd) = None
           \<and> voters d (sd_voter_id sd) = Some voter \<and> \<not> has_voted voter \<and> \<not> locked_out voter
           \<and> br = Inr (h, bn, gu)
           \<and> commit_vote d ok now voter sd (if take 2 h = ''0x'' then h else ''0x'' @ h) bn gu = Some d'
           \<and> res = Inr \<lparr>tx_hash_r = (if take 2 h = ''0x'' then h else ''0x'' @ h),
                        block_number_r = bn, timestamp_r = now\<rparr>
           \<and> used' = clean_expired_tokens (used(sd_session_id sd \<mapsto> now + 10 * 60)) now"
  then obtain voter h bn gu where
    v: "voters d (sd_voter_id sd) = Some voter" "\<not> has_voted voter" and
    c: "commit_vote d ok now voter sd (if take 2 h = ''0x'' then h else ''0x'' @ h) bn gu = Some d'"
    by blast
  show ?thesis
    using commit_vote_voted_once[OF assms(1,2) v c] commit_vote_pk_unique[OF assms(2) c] by simp
qed

lemma step_invariant:
  assumes "voted_once (sys_db s)" "pk_unique (sys_db s)"
  shows "voted_once (sys_db (step lib st s x)) \<and> pk_unique (sys_db (step lib st s x))"
proof (cases x)
  case (Authenticate m now vid sample ip sid ok)
  have sv: "same_votes (sys_db s) (snd (authenticate lib st m (sys_db s) now vid sample ip sid ok))"
    by (rule authenticate_same_votes)
  show ?thesis
    using same_votes_voted_once[OF sv assms(1)] same_votes_pk_unique[OF sv assms(2)]
    by (simp add: Authenticate)
next
  case (CastVote now sd cid br ok)
  obtain res d' used' where c: "cast_vote (sys_db s) (used_tokens s) now sd cid br ok = (res, d', used')"
    by (cases "cast_vote (sys_db s) (used_tokens s) now sd cid br ok") auto
  from cast_vote_invariant[OF assms c] show ?thesis by (simp add: CastVote c)
qed

lemma run_invariant:
  "voted_once (sys_db s) \<Longrightarrow> pk_unique (sys_db s) \<Longrightarrow>
     voted_once (sys_db (run lib st s ops)) \<and> pk_unique (sys_db (run lib st s ops))"
proof (induction ops arbitrary: s)
  case Nil then show ?case by simp
next
  case (Cons x xs)
  from step_invariant[OF Cons.prems, of lib st x]
  have "voted_once (sys_db (step lib st s x))" "pk_unique (sys_db (step lib st s x))" by simp_all
  from Cons.IH[OF this] show ?case by simp
qed

lemma submissions_in_of:
  "submissions_in d v e = filter (\<lambda>s. election_id_s s = e) (submissions_of d v)"
  by (simp add: submissions_in_def submissions_of_def conj_commute)

lemma voted_once_per_election:
  assumes "voted_once d" "voters d vid = Some v"
  shows "(has_voted v \<longleftrightarrow> length (submissions_of d v) = 1)"
    and "length (submissions_of d v) \<le> 1"
    and "length (submissions_in d v e) \<le> 1"
    and "has_voted v \<Longrightarrow>
           \<exists>e. length (submissions_in d v e) = 1 \<and> (\<forall>e'. e' \<noteq> e \<longrightarrow> submissions_in d v e' = [])"
    and "\<not> has_voted v \<Longrightarrow> submissions_in d v e = []"
proof -
  from assms have a: "has_voted v \<longrightarrow> length (submissions_of d v) = 1"
    and b: "\<not> has_voted v \<longrightarrow> submissions_of d v = []" unfolding voted_once_def by blast+
  show "has_voted v \<longleftrightarrow> length (submissions_of d v) = 1" using a b by auto
  show l: "length (submissions_of d v) \<le> 1" using a b by (cases "has_voted v") auto
  have "length (submissions_in d v e) \<le> length (submissions_of d v)"
    unfolding submissions_in_of by (rule length_filter_le)
  with l show "length (submissions_in d v e) \<le> 1" by simp
  show "\<not> has_voted v \<Longrightarrow> submissions_in d v e = []" using b by (simp add: submissions_in_of)
  show "has_voted v \<Longrightarrow>
          \<exists>e. length (submissions_in d v e) = 1 \<and> (\<forall>e'. e' \<noteq> e \<longrightarrow> submissions_in d v e' = [])"
  proof -
    assume "has_voted v"
    with a obtain row where r: "submissions_of d v = [row]"
      by (cases "submissions_of d v") auto
    have "length (submissions_in d v (election_id_s row)) = 1"
      by (simp add: submissions_in_of r)
    moreover have "\<forall>e'. e' \<noteq> election_id_s row \<longrightarrow> submissions_in d v e' = []"
      by (simp add: submissions_in_of r)
    ultimately show ?thesis by blast
  qed
qed

lemma sample_invariant: "voted_once (sys_db sample_system)" "pk_unique (sys_db sample_system)"
  by (auto simp: voted_once_def pk_unique_def sample_system_def sample_db_def submissions_of_def
      sample_voter_def split: if_splits)

lemma sample_first_cast:
  "cast_vote sample_db Map.empty 50 (sample_session ''V1'' ''s1'') ''c1'' (Inr (''abc'', 7, 21000)) True
   = (Inr \<lparr>tx_hash_r = ''0xabc'', block_number_r = 7, timestamp_r = 50\<rparr>,
      (update_voter
         (sample_db\<lparr>vote_submissions :=
            [\<lparr>voter_id_s = ''u1'', election_id_s = ''e1'', session_id_s = ''s1'', tx_hash_s = ''0xabc'',
              block_number_s = 7, gas_used_s = 21000, submitted_at = 50\<rparr>]\<rparr>)
         ''V1'' (\<lambda>v. v\<lparr>has_voted := True, voted_at := Some 50, vote_tx_hash := Some ''0xabc''\<rparr>))
        \<lparr>blockchain_txns := [\<lparr>election_id_t = ''e1'', tx_hash_t = ''0xabc'', block_number_t = 7,
                               gas_used_t = 21000\<rparr>]\<rparr>,
      clean_expired_tokens [''s1'' \<mapsto> 650] 50)"
  by (simp add: cast_vote_def sample_cast_prechecks sample_session_def commit_vote_def Let_def
      update_voter_tables)
    (simp add: sample_db_def sample_voter_def)

lemma step_keeps_has_voted:
  assumes "voters (sys_db s) vid = Some v" "has_voted v"
  shows "\<exists>v'. voters (sys_db (step lib st s x)) vid = Some v' \<and> has_voted v'"
proof (cases x)
  case (Authenticate m now vid2 sample ip sid ok)
  have sv: "same_votes (sys_db s) (snd (authenticate lib st m (sys_db s) now vid2 sample ip sid ok))"
    by (rule authenticate_same_votes)
  then have "rel_option (\<lambda>v v'. id_v v = id_v v' \<and> has_voted v = has_voted v') (voters (sys_db s) vid)
      (voters (snd (authenticate lib st m (sys_db s) now vid2 sample ip sid ok)) vid)"
    by (simp add: same_votes_def)
  with assms show ?thesis
    by (cases "voters (snd (authenticate lib st m (sys_db s) now vid2 sample ip sid ok)) vid")
       (auto simp: Authenticate)
next
  case (CastVote now sd cid br ok)
  obtain res d' used' where c: "cast_vote (sys_db s) (used_tokens s) now sd cid br ok = (res, d', used')"
    by (cases "cast_vote (sys_db s) (used_tokens s) now sd cid br ok") auto
  from cast_vote_result[OF c] show ?thesis
  proof
    assume "\<exists>e. res = Inl e \<and> d' = sys_db s \<and> used' = used_tokens s"
    with assms show ?thesis by (auto simp: CastVote c)
  next
    assume "\<exists>voter h bn gu.
             used_tokens s (sd_session_id sd) = None
           \<and> voters (sys_db s) (sd_voter_id sd) = Some voter \<and> \<not> has_voted voter \<and> \<not> locked_out voter
           \<and> br = Inr (h, bn, gu)
           \<and> commit_vote (sys_db s) ok now voter sd (if take 2 h = ''0x'' then h else ''0x'' @ h) bn gu = Some d'
           \<and> res = Inr \<lparr>tx_hash_r = (if take 2 h = ''0x'' then h else ''0x'' @ h),
                        block_number_r = bn, timestamp_r = now\<rparr>
           \<and> used' = clean_expired_tokens ((used_tokens s)(sd_session_id sd \<mapsto> now + 10 * 60)) now"
    then obtain voter h bn gu where
      cm: "commit_vote (sys_db s) ok now voter sd (if take 2 h = ''0x'' then h else ''0x'' @ h) bn gu = Some d'"
      by blast
    show ?thesis using assms
      by (auto simp: CastVote c commit_vote_tables(2)[OF cm])
  qed
qed

lemma run_keeps_has_voted:
  "voters (sys_db s) vid = Some v \<Longrightarrow> has_voted v \<Longrightarrow>
     \<exists>v'. voters (sys_db (run lib st s ops)) vid = Some v' \<and> has_voted v'"
proof (induction ops arbitrary: s v)
  case Nil then show ?case by simp
next
  case (Cons x xs)
  from step_keeps_has_voted[OF Cons.prems, of lib st x]
  obtain v1 where "voters (sys_db (step lib st s x)) vid = Some v1" "has_voted v1" by blast
  from Cons.IH[OF this] show ?case by simp
qed

lemma two_election_prechecks:
  "voters two_election_db ''V1'' = Some (sample_voter ''u1'' ''Alice'')"
  "select_candidate two_election_db ''c1'' ''e1'' =
     Some \<lparr>election_id_c = ''e1'', constituency_id_c = ''k1'', on_chain_id_c = 1, is_active = True\<rparr>"
  "constituencies two_election_db ''k1'' = Some \<lparr>name_k = ''North'', on_chain_id_k = 1\<rparr>"
  "vote_submissions two_election_db = []"
  "blockchain_txns two_election_db = []"
  "map id_e (elections two_election_db) = [''e1'', ''e2'']"
  by (simp_all add: two_election_db_def sample_db_def select_candidate_def)

lemma two_election_cast:
  "cast_vote two_election_db Map.empty 50 (sample_session ''V1'' ''s1'') ''c1'' (Inr (''abc'', 7, 21000)) True
   = (Inr \<lparr>tx_hash_r = ''0xabc'', block_number_r = 7, timestamp_r = 50\<rparr>,
      (update_voter
         (two_election_db\<lparr>vote_submissions :=
            [\<lparr>voter_id_s = ''u1'', election_id_s = ''e1'', session_id_s = ''s1'', tx_hash_s = ''0xabc'',
              block_number_s = 7, gas_used_s = 21000, submitted_at = 50\<rparr>]\<rparr>)
         ''V1'' (\<lambda>v. v\<lparr>has_voted := True, voted_at := Some 50, vote_tx_hash := Some ''0xabc''\<rparr>))
        \<lparr>blockchain_txns := [\<lparr>election_id_t = ''e1'', tx_hash_t = ''0xabc'', block_number_t = 7,
                               gas_used_t = 21000\<rparr>]\<rparr>,
      clean_expired_tokens [''s1'' \<mapsto> 650] 50)"
  by (simp add: cast_vote_def two_election_prechecks sample_session_def commit_vote_def Let_def
      update_voter_tables)
    (simp add: two_election_db_def sample_db_def sample_voter_def)

text \<open>
  C1, as stated: for every voter and every election, \<^verbatim>\<open>has_voted\<close> holds exactly when
  one vote submission exists for that (voter, election) pair. \<^verbatim>\<open>has_voted\<close> is one
  flag per voter. With two elections in the table and no vote submissions, after the
  first sample voter casts a vote in election \<open>e1\<close> the flag is set and the voter has
  one submission for \<open>e1\<close>, but none for \<open>e2\<close>.
\<close>

theorem has_voted_is_per_voter_counterexample:
  "vote_submissions two_election_db = []
   \<and> map id_e (elections (fst (snd (cast_vote two_election_db Map.empty 50 (sample_session ''V1'' ''s1'')
                                        ''c1'' (Inr (''abc'', 7, 21000)) True)))) = [''e1'', ''e2'']
   \<and> voters (fst (snd (cast_vote two_election_db Map.empty 50 (sample_session ''V1'' ''s1'')
                           ''c1'' (Inr (''abc'', 7, 21000)) True))) ''V1''
       = Some ((sample_voter ''u1'' ''Alice'')
                 \<lparr>has_voted := True, voted_at := Some 50, vote_tx_hash := Some ''0xabc''\<rparr>)
   \<and> has_voted ((sample_voter ''u1'' ''Alice'')
                 \<lparr>has_voted := True, voted_at := Some 50, vote_tx_hash := Some ''0xabc''\<rparr>)
   \<and> length (submissions_in (fst (snd (cast_vote two_election_db Map.empty 50
                 (sample_session ''V1'' ''s1'') ''c1'' (Inr (''abc'', 7, 21000)) True)))
               ((sample_voter ''u1'' ''Alice'')
                 \<lparr>has_voted := True, voted_at := Some 50, vote_tx_hash := Some ''0xabc''\<rparr>) ''e1'') = 1
   \<and> length (submissions_in (fst (snd (cast_vote two_election_db Map.empty 50
                 (sample_session ''V1'' ''s1'') ''c1'' (Inr (''abc'', 7, 21000)) True)))
               ((sample_voter ''u1'' ''Alice'')
                 \<lparr>has_voted := True, voted_at := Some 50, vote_tx_hash := Some ''0xabc''\<rparr>) ''e2'') = 0"
  unfolding two_election_cast
  by (simp add: update_voter_voters update_voter_tables submissions_in_def two_election_prechecks)
    (simp add: sample_voter_def)

text \<open>
  C1, amended: starting from a database where every voter marked as having voted has
  exactly one vote submission and every other voter has none, this stays true after any
  sequence of authentication and cast-vote requests, taken one after another:
  \<^verbatim>\<open>has_voted\<close> holds exactly when the voter has one submission over all elections,
  never more than one; for every election the voter has at most one submission; a voter
  who has voted has one submission in one election and none in any other, and a voter who
  has not voted has none. Every successful \<^verbatim>\<open>cast_vote\<close> appends exactly one
  submission, for the voter and the election of the session, and sets \<^verbatim>\<open>has_voted\<close> and
  \<^verbatim>\<open>voted_at\<close> in the same committed transaction; a \<^verbatim>\<open>cast_vote\<close> for a voter who
  has voted fails and changes nothing.
\<close>

theorem exactly_one_submission_per_voter:
  assumes "voted_once (sys_db s)" "pk_unique (sys_db s)"
  shows "(\<forall>vid v e. voters (sys_db (run lib st s ops)) vid = Some v \<longrightarrow>
            (has_voted v \<longleftrightarrow> length (submissions_of (sys_db (run lib st s ops)) v) = 1)
          \<and> length (submissions_of (sys_db (run lib st s ops)) v) \<le> 1
          \<and> length (submissions_in (sys_db (run lib st s ops)) v e) \<le> 1
          \<and> (has_voted v \<longrightarrow>
                (\<exists>e'. length (submissions_in (sys_db (run lib st s ops)) v e') = 1
                    \<and> (\<forall>e''. e'' \<noteq> e' \<longrightarrow> submissions_in (sys_db (run lib st s ops)) v e'' = [])))
          \<and> (\<not> has_voted v \<longrightarrow> submissions_in (sys_db (run lib st s ops)) v e = []))
       \<and> (\<forall>(d::db) (used::token_store) (now::int) (sd::session_data) cid br ok r d' used'.
            cast_vote d used now sd cid br ok = (Inr r, d', used') \<longrightarrow>
              (\<exists>voter row v'.
                  voters d (sd_voter_id sd) = Some voter \<and> \<not> has_voted voter
                \<and> vote_submissions d' = vote_submissions d @ [row]
                \<and> voter_id_s row = id_v voter \<and> election_id_s row = sd_election_id sd
                \<and> session_id_s row = sd_session_id sd
                \<and> voters d' (sd_voter_id sd) = Some v' \<and> has_voted v' \<and> voted_at v' = Some now
                \<and> id_v v' = id_v voter))
       \<and> (\<forall>(d::db) (used::token_store) (now::int) (sd::session_data) cid br ok (v::voter).
            voters d (sd_voter_id sd) = Some v \<and> has_voted v \<longrightarrow>
              (\<exists>e. cast_vote d used now sd cid br ok = (Inl e, d, used)))"
proof (intro conjI allI impI)
  fix vid v e
  assume v: "voters (sys_db (run lib st s ops)) vid = Some v"
  from run_invariant[OF assms, of lib st ops] have vo: "voted_once (sys_db (run lib st s ops))" by simp
  note p = voted_once_per_election[OF vo v]
  show "has_voted v \<longleftrightarrow> length (submissions_of (sys_db (run lib st s ops)) v) = 1" by (rule p(1))
  show "length (submissions_of (sys_db (run lib st s ops)) v) \<le> 1" by (rule p(2))
  show "length (submissions_in (sys_db (run lib st s ops)) v e) \<le> 1" by (rule p(3))
  show "\<exists>e'. length (submissions_in (sys_db (run lib st s ops)) v e') = 1
            \<and> (\<forall>e''. e'' \<noteq> e' \<longrightarrow> submissions_in (sys_db (run lib st s ops)) v e'' = [])"
    if "has_voted v"
    using that by (rule p(4))
  show "submissions_in (sys_db (run lib st s ops)) v e = []" if "\<not> has_voted v"
    using that by (rule p(5))
next
  fix d :: db and used :: token_store and now :: int and sd :: session_data and cid br ok r d' used'
  assume c: "cast_vote d used now sd cid br ok = (Inr r, d', used')"
  from cast_vote_result[OF c] obtain voter h bn gu where
    v: "voters d (sd_voter_id sd) = Some voter" "\<not> has_voted voter" and
    cm: "commit_vote d ok now voter sd (if take 2 h = ''0x'' then h else ''0x'' @ h) bn gu = Some d'"
    by auto
  let ?tx = "if take 2 h = ''0x'' then h else ''0x'' @ h"
  let ?row = "\<lparr>voter_id_s = id_v voter, election_id_s = sd_election_id sd,
              session_id_s = sd_session_id sd, tx_hash_s = ?tx, block_number_s = bn,
              gas_used_s = gu, submitted_at = now\<rparr>"
  let ?v' = "voter\<lparr>has_voted := True, voted_at := Some now, vote_tx_hash := Some ?tx\<rparr>"
  have s: "vote_submissions d' = vote_submissions d @ [?row]" by (rule commit_vote_tables(1)[OF cm])
  have v': "voters d' (sd_voter_id sd) = Some ?v'" using v by (simp add: commit_vote_tables(2)[OF cm])
  show "\<exists>voter row v'.
                  voters d (sd_voter_id sd) = Some voter \<and> \<not> has_voted voter
                \<and> vote_submissions d' = vote_submissions d @ [row]
                \<and> voter_id_s row = id_v voter \<and> election_id_s row = sd_election_id sd
                \<and> session_id_s row = sd_session_id sd
                \<and> voters d' (sd_voter_id sd) = Some v' \<and> has_voted v' \<and> voted_at v' = Some now
                \<and> id_v v' = id_v voter"
    using v s v' by (intro exI[of _ voter] exI[of _ ?row] exI[of _ ?v']) simp
next
  fix d :: db and used :: token_store and now :: int and sd :: session_data and cid br ok and v :: voter
  assume h: "voters d (sd_voter_id sd) = Some v \<and> has_voted v"
  obtain res d' used' where c: "cast_vote d used now sd cid br ok = (res, d', used')"
    by (cases "cast_vote d used now sd cid br ok") auto
  from cast_vote_result[OF c] h have "\<exists>e. res = Inl e \<and> d' = d \<and> used' = used" by auto
  with c show "\<exists>e. cast_vote d used now sd cid br ok = (Inl e, d, used)" by auto
qed


theorem exactly_one_submission_per_voter_witness:
  "voted_once (sys_db sample_system) \<and> pk_unique (sys_db sample_system)
   \<and> fst (cast_vote sample_db Map.empty 50 (sample_session ''V1'' ''s1'') ''c1''
             (Inr (''abc'', 7, 21000)) True)
       = Inr \<lparr>tx_hash_r = ''0xabc'', block_number_r = 7, timestamp_r = 50\<rparr>
   \<and> (\<exists>v. voters (sys_db (run sample_lib sample_settings sample_system
              [CastVote 50 (sample_session ''V1'' ''s1'') ''c1'' (Inr (''abc'', 7, 21000)) True,
               Authenticate FACE 55 ''V1'' (Embedding [1]) ''10.0.0.1'' ''s2'' True,
               CastVote 60 (sample_session ''V1'' ''s2'') ''c1'' (Inr (''def'', 8, 21000)) True])) ''V1''
            = Some v
          \<and> has_voted v
          \<and> length (submissions_of (sys_db (run sample_lib sample_settings sample_system
              [CastVote 50 (sample_session ''V1'' ''s1'') ''c1'' (Inr (''abc'', 7, 21000)) True,
               Authenticate FACE 55 ''V1'' (Embedding [1]) ''10.0.0.1'' ''s2'' True,
               CastVote 60 (sample_session ''V1'' ''s2'') ''c1'' (Inr (''def'', 8, 21000)) True])) v) = 1)"
proof -
  let ?op1 = "CastVote 50 (sample_session ''V1'' ''s1'') ''c1'' (Inr (''abc'', 7, 21000)) True"
  let ?rest = "[Authenticate FACE 55 ''V1'' (Embedding [1]) ''10.0.0.1'' ''s2'' True,
               CastVote 60 (sample_session ''V1'' ''s2'') ''c1'' (Inr (''def'', 8, 21000)) True]"
  let ?s1 = "step sample_lib sample_settings sample_system ?op1"
  have f: "fst (cast_vote sample_db Map.empty 50 (sample_session ''V1'' ''s1'') ''c1''
             (Inr (''abc'', 7, 21000)) True)
       = Inr \<lparr>tx_hash_r = ''0xabc'', block_number_r = 7, timestamp_r = 50\<rparr>"
    by (simp add: sample_first_cast)
  have v1: "\<exists>v. voters (sys_db ?s1) ''V1'' = Some v \<and> has_voted v"
    by (simp add: sample_system_def sample_first_cast update_voter_voters sample_cast_prechecks)
  then obtain v1 where "voters (sys_db ?s1) ''V1'' = Some v1" "has_voted v1" by blast
  from run_keeps_has_voted[OF this, of sample_lib sample_settings ?rest]
  obtain v where v: "voters (sys_db (run sample_lib sample_settings sample_system (?op1 # ?rest))) ''V1'' = Some v"
      "has_voted v" by auto
  note T = exactly_one_submission_per_voter[OF sample_invariant, of sample_lib sample_settings "?op1 # ?rest",
      THEN conjunct1, rule_format, OF v(1), of "''e1''"]
  from T v(2) have "length (submissions_of (sys_db (run sample_lib sample_settings sample_system (?op1 # ?rest))) v) = 1"
    by blast
  with v f sample_invariant show ?thesis by blast
qed

subsection \<open>Replay of a consumed session id\<close>












end
